theory Spec2Isabelle
  imports Main "HOL-Library.Word" "HOL-Library.AList"
begin

unbundle bit_operations_syntax

section \<open>Machine types\<close>

text \<open>
  Go's \<open>uint32\<close>, \<open>uint64\<close> and \<open>byte\<close> are words of the same width, so that
  \<open>+\<close> wraps around as it does in Go. \<open>ClientID\<close>, \<open>LobbyID\<close> and \<open>MessageID\<close>
  are aliases of \<open>uint32\<close> in the source.
\<close>

type_synonym u32 = "32 word"
type_synonym u64 = "64 word"
type_synonym byte = "8 word"
type_synonym ClientID = u32
type_synonym LobbyID = u32
type_synonym MessageID = u32

section \<open>Message structures (src/internal/messageStructure.go)\<close>

text \<open>The kinds of Go's \<open>reflect.Kind\<close>, in the order of the standard library.\<close>

datatype Kind =
    Reflect_Invalid | Reflect_Bool
  | Reflect_Int | Reflect_Int8 | Reflect_Int16 | Reflect_Int32 | Reflect_Int64
  | Reflect_Uint | Reflect_Uint8 | Reflect_Uint16 | Reflect_Uint32 | Reflect_Uint64
  | Reflect_Uintptr | Reflect_Float32 | Reflect_Float64
  | Reflect_Complex64 | Reflect_Complex128
  | Reflect_Array | Reflect_Chan | Reflect_Func | Reflect_Interface | Reflect_Map
  | Reflect_Pointer | Reflect_Slice | Reflect_String | Reflect_Struct
  | Reflect_UnsafePointer

text \<open>
  Run-time panics of the Go code are values: a function that can panic returns
  \<open>go_panic + 'a\<close>, with \<open>Inl\<close> for the panic. The first three are the panics of
  \<open>ComputeStructure\<close>, with the kind or the message name of their error text; the others
  are the run-time errors of an index expression, a slice expression and a dereference of
  \<open>nil\<close>.
\<close>

datatype go_panic =
    KindNotSupported Kind
  | MultipleVariableSizeElements string
  | VariableSizeElementNotLast string
  | IndexOutOfRange
  | SliceBoundsOutOfRange
  | NilPointerDereference

record MessageElementDescriptor =
  ByteSize :: u32
  Offset :: u32
  FieldName :: string
  Description :: string
  Kind :: Kind

record ShortElementDescriptor =
  ShortDescription :: string
  ShortFieldName :: string
  ShortKind :: Kind

definition NewElementDescriptor :: "string \<Rightarrow> string \<Rightarrow> Kind \<Rightarrow> ShortElementDescriptor" where
  "NewElementDescriptor description fieldName kind =
     \<lparr>ShortDescription = description, ShortFieldName = fieldName, ShortKind = kind\<rparr>"

type_synonym ReferenceStructure = "ShortElementDescriptor list"
type_synonym ComputedStructure = "MessageElementDescriptor list"

definition REFERENCE_STRUCTURE_EMPTY :: ReferenceStructure where
  "REFERENCE_STRUCTURE_EMPTY = []"

definition MESSAGE_HEADER_SIZE :: u32 where
  "MESSAGE_HEADER_SIZE = 8"

text \<open>\<open>isValidKind\<close> returns \<open>nil\<close> (here \<open>True\<close>) for the kinds of its case list.\<close>

fun isValidKind :: "Kind \<Rightarrow> bool" where
  "isValidKind Reflect_Bool = True"
| "isValidKind Reflect_Int = True"
| "isValidKind Reflect_Int8 = True"
| "isValidKind Reflect_Int16 = True"
| "isValidKind Reflect_Int32 = True"
| "isValidKind Reflect_Int64 = True"
| "isValidKind Reflect_Uint = True"
| "isValidKind Reflect_Uint8 = True"
| "isValidKind Reflect_Uint16 = True"
| "isValidKind Reflect_Uint32 = True"
| "isValidKind Reflect_Uint64 = True"
| "isValidKind Reflect_Uintptr = True"
| "isValidKind Reflect_Float32 = True"
| "isValidKind Reflect_Float64 = True"
| "isValidKind Reflect_Complex64 = True"
| "isValidKind Reflect_Complex128 = True"
| "isValidKind Reflect_String = True"
| "isValidKind _ = False"

fun isKindOfVariableSize :: "Kind \<Rightarrow> bool" where
  "isKindOfVariableSize Reflect_String = True"
| "isKindOfVariableSize Reflect_Slice = True"
| "isKindOfVariableSize Reflect_Array = True"
| "isKindOfVariableSize Reflect_Interface = True"
| "isKindOfVariableSize Reflect_Struct = True"
| "isKindOfVariableSize _ = False"

fun sizeOfSerializedKind :: "Kind \<Rightarrow> u32" where
  "sizeOfSerializedKind Reflect_Bool = 1"
| "sizeOfSerializedKind Reflect_Int8 = 1"
| "sizeOfSerializedKind Reflect_Uint8 = 1"
| "sizeOfSerializedKind Reflect_Int16 = 2"
| "sizeOfSerializedKind Reflect_Uint16 = 2"
| "sizeOfSerializedKind Reflect_Int32 = 4"
| "sizeOfSerializedKind Reflect_Uint32 = 4"
| "sizeOfSerializedKind Reflect_Float32 = 4"
| "sizeOfSerializedKind Reflect_Int64 = 8"
| "sizeOfSerializedKind Reflect_Uint64 = 8"
| "sizeOfSerializedKind Reflect_Float64 = 8"
| "sizeOfSerializedKind Reflect_Complex64 = 8"
| "sizeOfSerializedKind Reflect_Complex128 = 16"
| "sizeOfSerializedKind Reflect_String = 0"
| "sizeOfSerializedKind Reflect_Slice = 0"
| "sizeOfSerializedKind Reflect_Array = 0"
| "sizeOfSerializedKind _ = 0"

text \<open>
  The loop of \<open>ComputeStructure\<close>. \<open>n\<close> is \<open>len(shortDescription)\<close>, \<open>index\<close> the
  loop index, and the four accumulators are the local variables of the source in the order
  of their declaration. \<open>hasVariableSizeElement\<close> is never assigned in the source, so it
  is passed on unchanged. \<open>index != len(shortDescription)-1\<close> is a comparison of Go
  \<open>int\<close>s, written on \<open>int\<close>.
\<close>

fun ComputeStructure_loop ::
  "string \<Rightarrow> nat \<Rightarrow> nat \<Rightarrow> ShortElementDescriptor list \<Rightarrow>
   ComputedStructure \<Rightarrow> u32 \<Rightarrow> bool \<Rightarrow> u32 \<Rightarrow> go_panic + (u32 \<times> ComputedStructure)" where
  "ComputeStructure_loop messageName n index [] computedStructure offset hasVariableSizeElement minimumTotalSize =
     Inr (minimumTotalSize, computedStructure)"
| "ComputeStructure_loop messageName n index (element # rest) computedStructure offset hasVariableSizeElement minimumTotalSize =
     (if \<not> isValidKind (ShortKind element) then Inl (KindNotSupported (ShortKind element))
      else
        let isVariable = isKindOfVariableSize (ShortKind element) in
        if isVariable \<and> hasVariableSizeElement then Inl (MultipleVariableSizeElements messageName)
        else if isVariable \<and> int index \<noteq> int n - 1 then Inl (VariableSizeElementNotLast messageName)
        else
          let sizeOfElement = sizeOfSerializedKind (ShortKind element) in
          ComputeStructure_loop messageName n (index + 1) rest
            (computedStructure @
               [\<lparr>ByteSize = sizeOfElement, Offset = offset,
                 FieldName = ShortFieldName element, Description = ShortDescription element,
                 Kind = ShortKind element\<rparr>])
            (offset + sizeOfElement) hasVariableSizeElement (minimumTotalSize + sizeOfElement))"

definition ComputeStructure ::
  "string \<Rightarrow> ReferenceStructure \<Rightarrow> go_panic + (u32 \<times> ComputedStructure)" where
  "ComputeStructure messageName shortDescription =
     ComputeStructure_loop messageName (length shortDescription) 0 shortDescription
       [] MESSAGE_HEADER_SIZE False 0"

text \<open>The elements of a computed structure that are of fixed size.\<close>

definition fixedSizeElements :: "ComputedStructure \<Rightarrow> ComputedStructure" where
  "fixedSizeElements cs = filter (\<lambda>e. \<not> isKindOfVariableSize (Kind e)) cs"

text \<open>
  What \<open>ComputeStructure\<close> accepts: every kind is valid, and no element before the last
  one is of variable size. The sizes of the fixed-size elements of a reference structure.
\<close>

definition accepted_structure :: "ReferenceStructure \<Rightarrow> bool" where
  "accepted_structure shortDescription =
     (list_all (\<lambda>e. isValidKind (ShortKind e)) shortDescription \<and>
      list_all (\<lambda>e. \<not> isKindOfVariableSize (ShortKind e)) (butlast shortDescription))"

definition fixed_sizes :: "ReferenceStructure \<Rightarrow> u32 list" where
  "fixed_sizes shortDescription =
     map (\<lambda>e. sizeOfSerializedKind (ShortKind e))
       (filter (\<lambda>e. \<not> isKindOfVariableSize (ShortKind e)) shortDescription)"

text \<open>
  The structure of \<open>ASTEROID_SPAWN_EVENT\<close> (src/unnamed/part_003), used as a concrete
  input.
\<close>

definition ASTEROID_SPAWN_STRUCTURE :: ReferenceStructure where
  "ASTEROID_SPAWN_STRUCTURE =
     [NewElementDescriptor ''ID'' ''id'' Reflect_Uint32,
      NewElementDescriptor ''X Offset'' ''x'' Reflect_Float32,
      NewElementDescriptor ''Y Offset'' ''y'' Reflect_Float32,
      NewElementDescriptor ''Health'' ''health'' Reflect_Uint8,
      NewElementDescriptor ''Time until impact'' ''timeUntilImpact'' Reflect_Uint8,
      NewElementDescriptor ''Asteroid Type'' ''type'' Reflect_Uint8,
      NewElementDescriptor ''CharCode'' ''charCode'' Reflect_String]"

section \<open>Byte slices and byte order (Go's slices and encoding/binary)\<close>

text \<open>
  A Go slice is a window on an array: it has a length and a capacity, and the slice
  expression \<open>s[low:high]\<close> panics unless \<open>0 \<le> low \<le> high \<le> cap(s)\<close>, so that it
  may reach past the length. \<open>slice_array\<close> holds the elements of the underlying array
  from the first element of the slice up to its capacity, and \<open>slice_len\<close> the length.
\<close>

record byte_slice =
  slice_array :: "byte list"
  slice_len :: nat

definition slice_of :: "byte list \<Rightarrow> byte_slice" where
  "slice_of bs = \<lparr>slice_array = bs, slice_len = length bs\<rparr>"

definition slice_cap :: "byte_slice \<Rightarrow> nat" where
  "slice_cap s = length (slice_array s)"

definition slice_bytes :: "byte_slice \<Rightarrow> byte list" where
  "slice_bytes s = take (slice_len s) (slice_array s)"

definition slice_expr :: "byte_slice \<Rightarrow> nat \<Rightarrow> nat \<Rightarrow> go_panic + byte_slice" where
  "slice_expr s low high =
     (if low \<le> high \<and> high \<le> slice_cap s
      then Inr \<lparr>slice_array = drop low (slice_array s), slice_len = high - low\<rparr>
      else Inl SliceBoundsOutOfRange)"

definition u32_le :: "byte \<Rightarrow> byte \<Rightarrow> byte \<Rightarrow> byte \<Rightarrow> u32" where
  "u32_le b0 b1 b2 b3 =
     ucast b0 OR push_bit 8 (ucast b1) OR push_bit 16 (ucast b2) OR push_bit 24 (ucast b3)"

text \<open>
  \<open>binary.LittleEndian.Uint32\<close> and \<open>binary.BigEndian.Uint32\<close> start with the bounds
  check \<open>_ = b[3]\<close>, which panics on a slice of fewer than four bytes, and read the first
  four bytes of a longer one.
\<close>

definition LittleEndian_Uint32 :: "byte_slice \<Rightarrow> go_panic + u32" where
  "LittleEndian_Uint32 b =
     (case slice_bytes b of
        b0 # b1 # b2 # b3 # _ \<Rightarrow> Inr (u32_le b0 b1 b2 b3)
      | _ \<Rightarrow> Inl IndexOutOfRange)"

definition BigEndian_Uint32 :: "byte_slice \<Rightarrow> go_panic + u32" where
  "BigEndian_Uint32 b =
     (case slice_bytes b of
        b0 # b1 # b2 # b3 # _ \<Rightarrow> Inr (u32_le b3 b2 b1 b0)
      | _ \<Rightarrow> Inl IndexOutOfRange)"

definition LittleEndian_PutUint32 :: "u32 \<Rightarrow> byte list" where
  "LittleEndian_PutUint32 v =
     [ucast v, ucast (drop_bit 8 v), ucast (drop_bit 16 v), ucast (drop_bit 24 v)]"

text \<open>An index expression \<open>xs[i]\<close> on a slice panics out of range.\<close>

definition index_expr :: "'a list \<Rightarrow> nat \<Rightarrow> go_panic + 'a" where
  "index_expr xs i = (if i < length xs then Inr (xs ! i) else Inl IndexOutOfRange)"

section \<open>Event specifications\<close>

text \<open>
  The declarations of \<open>OriginType\<close>, \<open>EventSpecification\<close> and
  \<open>meta.MessageEncoding\<close> are not among the source files; the types below have the
  values and the fields that the source files use. \<open>SendPermissions\<close> is a Go
  \<open>map[OriginType]bool\<close>, kept as an association list; the \<open>Handler\<close> field, a function
  value, is left out. The event specifications that the code names
  (\<open>PLAYER_MOVE_EVENT\<close>, ...) are declared in files that are not among the sources, so the
  functions that use one take it as a parameter.
\<close>

datatype OriginType = ORIGIN_TYPE_SERVER | ORIGIN_TYPE_OWNER | ORIGIN_TYPE_GUEST

datatype MessageEncoding =
  MESSAGE_ENCODING_BINARY | MESSAGE_ENCODING_BASE16 | MESSAGE_ENCODING_BASE64

record EventSpecification =
  Spec_ID :: MessageID
  Spec_Name :: string
  SendPermissions :: "(OriginType \<times> bool) list"
  Structure :: ComputedStructure
  ExpectedMinSize :: u32

text \<open>\<open>spec.SendPermissions[t]\<close>: a Go map yields \<open>false\<close> for a key it does not hold.\<close>

definition SendPermissions_at :: "EventSpecification \<Rightarrow> OriginType \<Rightarrow> bool" where
  "SendPermissions_at spec t = (case map_of (SendPermissions spec) t of None \<Rightarrow> False | Some b \<Rightarrow> b)"

section \<open>Clients (src/unnamed/part_002, the later version of src/internal/client.go)\<close>

record DisclosedClientState =
  LastKnownPosition :: u32
  MSOfLastMessage :: u64

text \<open>
  \<open>uint64(time.Now().UnixNano() / 1000000)\<close>: the clock reading is a parameter, Go's
  integer division truncates towards zero, and the conversion to \<open>uint64\<close> wraps.
\<close>

definition nowInMS :: "int \<Rightarrow> u64" where
  "nowInMS unixNano = word_of_int (sgn unixNano * (\<bar>unixNano\<bar> div 1000000))"

text \<open>
  \<open>UpdateAny\<close> of src/unnamed/part_002. The \<open>switch\<close> comes first and may panic (the
  index expression, the slice expression with its \<open>uint32\<close> sum, the read of four bytes);
  the stamp of \<open>MSOfLastMessage\<close> follows it.
\<close>

definition UpdateAny ::
  "EventSpecification \<Rightarrow> int \<Rightarrow> DisclosedClientState \<Rightarrow> MessageID \<Rightarrow> byte_slice \<Rightarrow>
   go_panic + DisclosedClientState" where
  "UpdateAny PLAYER_MOVE_EVENT unixNano dcs messageID remainder =
     (case
        (if messageID = Spec_ID PLAYER_MOVE_EVENT then
           (case index_expr (Structure PLAYER_MOVE_EVENT) 1 of
              Inl p \<Rightarrow> Inl p
            | Inr locationIDElement \<Rightarrow>
                let offset = Offset locationIDElement;
                    byteSize = ByteSize locationIDElement
                in (case slice_expr remainder (unat offset) (unat (offset + byteSize)) of
                      Inl p \<Rightarrow> Inl p
                    | Inr subSlice \<Rightarrow>
                        (case LittleEndian_Uint32 subSlice of
                           Inl p \<Rightarrow> Inl p
                         | Inr v \<Rightarrow> Inr (dcs\<lparr>LastKnownPosition := v\<rparr>))))
         else Inr dcs)
      of
        Inl p \<Rightarrow> Inl p
      | Inr dcs' \<Rightarrow> Inr (dcs'\<lparr>MSOfLastMessage := nowInMS unixNano\<rparr>))"

text \<open>
  The earlier version, src/internal/client.go: its \<open>DisclosedClientState\<close> has the one
  field \<open>LastKnownPosition\<close>, the read is big-endian and there is no stamp.
\<close>

definition UpdateAny_client_go ::
  "EventSpecification \<Rightarrow> u32 \<Rightarrow> MessageID \<Rightarrow> byte_slice \<Rightarrow> go_panic + u32" where
  "UpdateAny_client_go PLAYER_MOVE_EVENT lastKnownPosition messageID remainder =
     (if messageID = Spec_ID PLAYER_MOVE_EVENT then
        (case index_expr (Structure PLAYER_MOVE_EVENT) 1 of
           Inl p \<Rightarrow> Inl p
         | Inr locationIDElement \<Rightarrow>
             let offset = Offset locationIDElement;
                 byteSize = ByteSize locationIDElement
             in (case slice_expr remainder (unat offset) (unat (offset + byteSize)) of
                   Inl p \<Rightarrow> Inl p
                 | Inr subSlice \<Rightarrow> BigEndian_Uint32 subSlice))
      else Inr lastKnownPosition)"

text \<open>
  The condition under which the \<open>PLAYER_MOVE_EVENT\<close> branch of \<open>UpdateAny\<close> does not
  panic: the event has a second element, and its byte range, computed in \<open>uint32\<close>, is
  at least four bytes long and ends within the capacity of the remainder.
\<close>

definition locationID_in_range :: "EventSpecification \<Rightarrow> byte_slice \<Rightarrow> bool" where
  "locationID_in_range PLAYER_MOVE_EVENT remainder =
     (1 < length (Structure PLAYER_MOVE_EVENT) \<and>
      (let e = Structure PLAYER_MOVE_EVENT ! 1;
           low = unat (Offset e);
           high = unat (Offset e + ByteSize e)
       in low + 4 \<le> high \<and> high \<le> slice_cap remainder))"

type_synonym Conn = nat

record Client =
  Client_ID :: ClientID
  Client_IDBytes :: "byte list"
  Client_IGN :: string
  Client_Type :: OriginType
  Client_State :: DisclosedClientState
  Client_Encoding :: MessageEncoding
  Client_Conn :: Conn

definition NewDisclosedClientState :: DisclosedClientState where
  "NewDisclosedClientState = \<lparr>LastKnownPosition = 0, MSOfLastMessage = 0\<rparr>"

definition NewClient ::
  "ClientID \<Rightarrow> string \<Rightarrow> OriginType \<Rightarrow> Conn \<Rightarrow> MessageEncoding \<Rightarrow> Client" where
  "NewClient cid IGN clientType conn encoding =
     \<lparr>Client_ID = cid, Client_IDBytes = LittleEndian_PutUint32 cid, Client_IGN = IGN,
      Client_Type = clientType, Client_State = NewDisclosedClientState,
      Client_Encoding = encoding, Client_Conn = conn\<rparr>"

section \<open>Concurrent maps\<close>

text \<open>
  Modelled from the spec: \<open>util.ConcurrentTypedMap\<close> is not among the source files. The
  spec describes \<open>Lobby.Clients\<close> and \<open>LobbyManager.Lobbies\<close> as concurrent maps with
  atomic per-key insert, load and delete, whose iteration yields a point-in-time snapshot.
  Here such a map is an association list; \<open>Range\<close> visits the entries in the order of the
  list, which stands for the unspecified order of the iteration, and stops when the callback
  returns \<open>false\<close>. \<open>Load\<close> of a key that is absent gives \<open>None\<close>: Go's zero value
  (\<open>nil\<close> for the pointer types stored here) together with \<open>false\<close>.
\<close>

type_synonym ('k, 'v) ConcurrentTypedMap = "('k \<times> 'v) list"

definition Load :: "('k, 'v) ConcurrentTypedMap \<Rightarrow> 'k \<Rightarrow> 'v option" where
  "Load m k = map_of m k"

definition Store :: "('k, 'v) ConcurrentTypedMap \<Rightarrow> 'k \<Rightarrow> 'v \<Rightarrow> ('k, 'v) ConcurrentTypedMap" where
  "Store m k v = AList.update k v m"

definition Delete :: "('k, 'v) ConcurrentTypedMap \<Rightarrow> 'k \<Rightarrow> ('k, 'v) ConcurrentTypedMap" where
  "Delete m k = AList.delete k m"

definition LoadAndDelete ::
  "('k, 'v) ConcurrentTypedMap \<Rightarrow> 'k \<Rightarrow> 'v option \<times> ('k, 'v) ConcurrentTypedMap" where
  "LoadAndDelete m k = (map_of m k, AList.delete k m)"

fun Range :: "('k \<Rightarrow> 'v \<Rightarrow> 's \<Rightarrow> 's \<times> bool) \<Rightarrow> ('k, 'v) ConcurrentTypedMap \<Rightarrow> 's \<Rightarrow> 's" where
  "Range f [] s = s"
| "Range f ((k, v) # rest) s =
     (case f k v s of (s', continue) \<Rightarrow> if continue then Range f rest s' else s')"

section \<open>Lobbies (src/internal/lobby.go)\<close>

text \<open>
  The fields of \<open>Lobby\<close> that the functions below read or write. \<open>BroadcastMessage\<close> is
  a closure that \<open>NewLobby\<close> chooses by the encoding and that calls one of
  \<open>BroadcastMessageBinary\<close>, \<open>BroadcastMessageBase16\<close> and \<open>BroadcastMessageBase64\<close>
  on the lobby; these are not among the source files, so a call is recorded as an effect with
  the state of the lobby at the moment of the call. The mutex, the activity tracker and the
  close queue are not fields here; a send on the close queue is an effect.
\<close>

record Lobby =
  Lobby_ID :: LobbyID
  Lobby_OwnerID :: ClientID
  Lobby_ColonyID :: u32
  Lobby_Clients :: "(ClientID, Client) ConcurrentTypedMap"
  Lobby_Closing :: bool
  Lobby_Encoding :: MessageEncoding

datatype effect =
    ConnClose Conn
  | BroadcastMessage Lobby ClientID "byte list"
  | ClientsStore LobbyID ClientID
  | GoHandleConnection LobbyID Client
  | GoCloseColony u32 u32
  | CloseQueueSend LobbyID
  | LogLobbyCreated LobbyID MessageEncoding

definition NewLobby :: "LobbyID \<Rightarrow> ClientID \<Rightarrow> u32 \<Rightarrow> MessageEncoding \<Rightarrow> Lobby" where
  "NewLobby lid ownerID colonyID encoding =
     \<lparr>Lobby_ID = lid, Lobby_OwnerID = ownerID, Lobby_ColonyID = colonyID,
      Lobby_Clients = [], Lobby_Closing = False, Lobby_Encoding = encoding\<rparr>"

datatype JoinError =
  JoinErrorNotFound | JoinErrorClosing | JoinErrorAlreadyInLobby | JoinErrorSerializationFailure

record LobbyJoinError =
  Err_LobbyID :: LobbyID
  Err_Type :: JoinError
  Err_Reason :: string

text \<open>\<open>SERVER_ID\<close> is \<open>math.MaxUint32\<close> (src/unnamed/part_000).\<close>

definition SERVER_ID :: ClientID where
  "SERVER_ID = 0xFFFFFFFF"

subsection \<open>The read loop\<close>

text \<open>
  \<open>hex.DecodeString\<close>, \<open>ExtractClientIDAndMessageID\<close> and \<open>SendDebugInfoToClient\<close>
  are not among the source files and are parameters: the decoder returns the bytes and whether
  it failed, the extraction an error or the sender, the specification and the remainder, and a
  debug notification succeeds, returns an error or panics. Its recipient is a \<open>*Client\<close>,
  which may be \<open>nil\<close> (\<open>None\<close>).
\<close>

datatype send_result = SendOk | SendError | SendPanic

record connection_env =
  hex_DecodeString :: "byte list \<Rightarrow> byte list \<times> bool"
  ExtractClientIDAndMessageID :: "byte list \<Rightarrow> string + (ClientID \<times> EventSpecification \<times> byte list)"
  SendDebugInfoToClient :: "Client option \<Rightarrow> nat \<Rightarrow> send_result"

datatype frame = ReadError | Frame int "byte list"

definition TextMessage :: int where
  "TextMessage = 1"

definition BinaryMessage :: int where
  "BinaryMessage = 2"

text \<open>
  What one iteration of the loop comes to: \<open>break\<close>, \<open>continue\<close>, the call
  \<open>processClientMessage(client, spec, remainder)\<close>, or a panic. An iteration also yields
  the calls of \<open>SendDebugInfoToClient\<close> it made, each with its recipient and code.
\<close>

datatype loop_step =
    Break
  | Continue
  | ProcessClientMessage Client EventSpecification "byte list"
  | Panicked

type_synonym iteration = "(Client option \<times> nat) list \<times> loop_step"

text \<open>
  \<open>if err := SendDebugInfoToClient(recipient, code, ...); err != nil { break }\<close>, followed
  by the rest of the iteration.
\<close>

definition debug_or_break :: "connection_env \<Rightarrow> Client option \<Rightarrow> nat \<Rightarrow> iteration \<Rightarrow> iteration" where
  "debug_or_break env recipient code rest =
     (case SendDebugInfoToClient env recipient code of
        SendOk \<Rightarrow> ((recipient, code) # fst rest, snd rest)
      | SendError \<Rightarrow> ([(recipient, code)], Break)
      | SendPanic \<Rightarrow> ([(recipient, code)], Panicked))"

text \<open>
  Lines 147 to 185 of \<open>handleConnection\<close>: the checks on a message \<open>msg\<close>. The
  \<open>client\<close> of the extraction error is the parameter of \<open>handleConnection\<close>; the
  short variable declaration \<open>client, clientExists := lobby.Clients.Load(clientID)\<close> stands
  in the block of the loop body and declares a new \<open>client\<close> there, which is the one that every
  later line of the iteration uses.
\<close>

definition handleConnection_checks ::
  "connection_env \<Rightarrow> Lobby \<Rightarrow> Client \<Rightarrow> byte list \<Rightarrow> iteration" where
  "handleConnection_checks env lobby client msg =
     (case ExtractClientIDAndMessageID env msg of
        Inl extractErr \<Rightarrow> debug_or_break env (Some client) 400 ([], Continue)
      | Inr (clientID, spec, remainder) \<Rightarrow>
          (case Load (Lobby_Clients lobby) clientID of
             None \<Rightarrow> debug_or_break env None 401 ([], Continue)
           | Some client' \<Rightarrow>
               if \<not> SendPermissions_at spec (Client_Type client')
               then debug_or_break env (Some client') 401 ([], Continue)
               else ([], ProcessClientMessage client' spec remainder)))"

text \<open>
  Lines 118 to 146: the read and the frame type. After a decoding error whose debug
  notification was delivered there is no \<open>continue\<close>, so the checks run on the bytes that
  the decoder returned.
\<close>

definition handleConnection_body ::
  "connection_env \<Rightarrow> Lobby \<Rightarrow> Client \<Rightarrow> frame \<Rightarrow> iteration" where
  "handleConnection_body env lobby client fr =
     (case fr of
        ReadError \<Rightarrow> ([], Break)
      | Frame dataType msg \<Rightarrow>
          if dataType = TextMessage then
            (case hex_DecodeString env msg of
               (msg', decodeErr) \<Rightarrow>
                 if decodeErr
                 then debug_or_break env (Some client) 400 (handleConnection_checks env lobby client msg')
                 else handleConnection_checks env lobby client msg')
          else if dataType \<noteq> BinaryMessage
          then debug_or_break env (Some client) 404 ([], Continue)
          else handleConnection_checks env lobby client msg)"

text \<open>Whether an iteration comes to the call of \<open>processClientMessage\<close>.\<close>

fun is_dispatch :: "loop_step \<Rightarrow> bool" where
  "is_dispatch (ProcessClientMessage client spec remainder) = True"
| "is_dispatch _ = False"

text \<open>
  The message that the checks of an iteration run on: the payload of a binary frame, and
  for a text frame the bytes that the decoder returned.
\<close>

definition frame_message :: "connection_env \<Rightarrow> int \<Rightarrow> byte list \<Rightarrow> byte list" where
  "frame_message env dataType payload =
     (if dataType = TextMessage then fst (hex_DecodeString env payload) else payload)"

subsection \<open>Removal and closing\<close>

text \<open>
  \<open>RemoveClient\<close>. The short variable declaration
  \<open>client, exists := lobby.Clients.Load(client.ID)\<close> stands in the function body, where the
  parameter \<open>client\<close> is in scope, so it assigns to the parameter; on a miss \<open>client\<close> is
  \<open>nil\<close>, and the argument \<open>client.ID\<close> of \<open>log.Printf\<close> dereferences it. The first
  parameter is the buffer of \<open>PrepareServerMessage(PLAYER_LEFT_EVENT)\<close>, which is not among
  the source files.
\<close>

definition RemoveClient :: "byte list \<Rightarrow> Lobby \<Rightarrow> Client \<Rightarrow> go_panic + (Lobby \<times> effect list)" where
  "RemoveClient playerLeftMessage lobby client =
     (case Load (Lobby_Clients lobby) (Client_ID client) of
        None \<Rightarrow> Inl NilPointerDereference
      | Some client' \<Rightarrow>
          let lobby' = lobby\<lparr>Lobby_Clients := Delete (Lobby_Clients lobby) (Client_ID client')\<rparr>;
              msg = playerLeftMessage @ Client_IDBytes client' @ map of_char (Client_IGN client')
          in Inr (lobby', [ConnClose (Client_Conn client'), BroadcastMessage lobby' SERVER_ID msg]))"

text \<open>\<open>close\<close>; its parameter is the buffer of \<open>PrepareServerMessage(LOBBY_CLOSING_EVENT)\<close>.\<close>

definition close :: "byte list \<Rightarrow> Lobby \<Rightarrow> Lobby \<times> effect list" where
  "close lobbyClosingMessage lobby =
     (lobby\<lparr>Lobby_Closing := True\<rparr>,
      [BroadcastMessage lobby SERVER_ID lobbyClosingMessage, CloseQueueSend (Lobby_ID lobby)])"

definition handleGuestDisconnect :: "byte list \<Rightarrow> Lobby \<Rightarrow> Client \<Rightarrow> go_panic + (Lobby \<times> effect list)" where
  "handleGuestDisconnect playerLeftMessage lobby user = RemoveClient playerLeftMessage lobby user"

definition handleOwnerDisconnect ::
  "byte list \<Rightarrow> byte list \<Rightarrow> Lobby \<Rightarrow> Client \<Rightarrow> go_panic + (Lobby \<times> effect list)" where
  "handleOwnerDisconnect playerLeftMessage lobbyClosingMessage lobby user =
     (case RemoveClient playerLeftMessage lobby user of
        Inl p \<Rightarrow> Inl p
      | Inr (lobby', effects) \<Rightarrow>
          (case close lobbyClosingMessage lobby' of
             (lobby'', effects') \<Rightarrow> Inr (lobby'', effects @ effects')))"

text \<open>
  \<open>onDisconnect\<close> as \<open>handleConnection\<close> chooses it by the type of the client of the
  session. It is called by the close handler of the connection and again after the loop.
\<close>

definition onDisconnect ::
  "byte list \<Rightarrow> byte list \<Rightarrow> Lobby \<Rightarrow> Client \<Rightarrow> go_panic + (Lobby \<times> effect list)" where
  "onDisconnect playerLeftMessage lobbyClosingMessage lobby client =
     (if Client_Type client = ORIGIN_TYPE_OWNER
      then handleOwnerDisconnect playerLeftMessage lobbyClosingMessage lobby client
      else handleGuestDisconnect playerLeftMessage lobby client)"

definition shutdown :: "Lobby \<Rightarrow> effect list" where
  "shutdown lobby =
     Range (\<lambda>key client effects. (effects @ [ConnClose (Client_Conn client)], True))
       (Lobby_Clients lobby) []"

definition ClientCount :: "Lobby \<Rightarrow> int" where
  "ClientCount lobby = Range (\<lambda>key client count. (count + 1, True)) (Lobby_Clients lobby) 0"

text \<open>Every client of a lobby is stored under its own ID, as \<open>JoinLobby\<close> stores it.\<close>

definition clients_keyed_by_ID :: "Lobby \<Rightarrow> bool" where
  "clients_keyed_by_ID lobby = list_all (\<lambda>(k, c). Client_ID c = k) (Lobby_Clients lobby)"

section \<open>The lobby manager (src/unnamed/part_001)\<close>

text \<open>
  \<open>meta.RuntimeConfiguration\<close> is not among the source files; \<open>CreateLobby\<close> reads its
  field \<open>Encoding\<close>. The close queue of the manager and the goroutine that drains it are
  not part of the state; \<open>UnregisterLobby\<close>, which that goroutine calls, is a function here.
\<close>

record RuntimeConfiguration =
  Config_Encoding :: MessageEncoding

record LobbyManager =
  Lobbies :: "(LobbyID, Lobby) ConcurrentTypedMap"
  nextLobbyID :: u32
  acceptsNewLobbies :: bool
  configuration :: RuntimeConfiguration

definition CreateLobbyManager :: "RuntimeConfiguration \<Rightarrow> LobbyManager" where
  "CreateLobbyManager runtimeConfiguration =
     \<lparr>Lobbies = [], nextLobbyID = 1, acceptsNewLobbies = True,
      configuration = runtimeConfiguration\<rparr>"

definition GetLobbyCount :: "LobbyManager \<Rightarrow> int" where
  "GetLobbyCount lm = Range (\<lambda>key lobby count. (count + 1, True)) (Lobbies lm) 0"

text \<open>
  \<open>UnregisterLobby\<close>: the lobby that is shut down is the one that \<open>LoadAndDelete\<close>
  returns for the ID of the argument.
\<close>

definition UnregisterLobby :: "LobbyManager \<Rightarrow> Lobby \<Rightarrow> LobbyManager \<times> effect list" where
  "UnregisterLobby lm lobby =
     (case LoadAndDelete (Lobbies lm) (Lobby_ID lobby) of
        (None, lobbies') \<Rightarrow> (lm\<lparr>Lobbies := lobbies'\<rparr>, [])
      | (Some lobby', lobbies') \<Rightarrow> (lm\<lparr>Lobbies := lobbies'\<rparr>, shutdown lobby'))"

datatype create_error = NotAcceptingNewLobbies

text \<open>
  \<open>CreateLobby\<close>. \<open>nextLobbyID.Add(1)\<close> adds 1 to the atomic counter, wrapping around
  as \<open>uint32\<close> does, and returns the new value. The \<open>log.Println\<close> of the last branch is
  kept as an effect: it marks the calls that construct a lobby.
\<close>

definition CreateLobby ::
  "LobbyManager \<Rightarrow> ClientID \<Rightarrow> u32 \<Rightarrow> MessageEncoding \<Rightarrow>
   (create_error + Lobby) \<times> LobbyManager \<times> effect list" where
  "CreateLobby lm ownerID colonyID userSetEncoding =
     (if \<not> acceptsNewLobbies lm then (Inl NotAcceptingNewLobbies, lm, [])
      else
        let existingLobby =
              Range (\<lambda>key lobby existing.
                       if Lobby_ColonyID lobby = colonyID then (Some lobby, False)
                       else (existing, True))
                (Lobbies lm) None
        in case existingLobby of
             Some lobby \<Rightarrow> (Inr lobby, lm, [])
           | None \<Rightarrow>
               let lobbyID = nextLobbyID lm + 1;
                   encodingToUse =
                     (if userSetEncoding = MESSAGE_ENCODING_BINARY
                      then Config_Encoding (configuration lm) else userSetEncoding);
                   lobby = NewLobby lobbyID ownerID colonyID encodingToUse
               in (Inr lobby,
                   lm\<lparr>nextLobbyID := lobbyID, Lobbies := Store (Lobbies lm) lobbyID lobby\<rparr>,
                   [LogLobbyCreated lobbyID encodingToUse]))"

text \<open>
  \<open>IsJoinPossible\<close> writes nothing; it returns the error (\<open>None\<close> for \<open>nil\<close>) and the
  request to the main backend that it starts when the lobby is unknown.
\<close>

definition IsJoinPossible ::
  "LobbyManager \<Rightarrow> LobbyID \<Rightarrow> ClientID \<Rightarrow> u32 \<Rightarrow> u32 \<Rightarrow> LobbyJoinError option \<times> effect list" where
  "IsJoinPossible lm lobbyID clientID colonyID colonyOwnerID =
     (case Load (Lobbies lm) lobbyID of
        None \<Rightarrow>
          (Some \<lparr>Err_LobbyID = lobbyID, Err_Type = JoinErrorNotFound,
                 Err_Reason = ''Lobby does not exist''\<rparr>,
           [GoCloseColony colonyID colonyOwnerID])
      | Some lobby \<Rightarrow>
          if Lobby_Closing lobby
          then (Some \<lparr>Err_LobbyID = lobbyID, Err_Type = JoinErrorClosing,
                       Err_Reason = ''Lobby is closing''\<rparr>, [])
          else if Load (Lobby_Clients lobby) clientID \<noteq> None
          then (Some \<lparr>Err_LobbyID = lobbyID, Err_Type = JoinErrorAlreadyInLobby,
                       Err_Reason = ''User is already in lobby''\<rparr>, [])
          else (None, []))"

text \<open>
  \<open>JoinLobby\<close>. \<open>Serialize\<close> is not among the source files; the first parameter gives
  its result for \<open>PLAYER_JOINED_EVENT\<close> and the player's ID and name, an error or the
  bytes. The manager holds a pointer to the lobby, so the store into \<open>lobby.Clients\<close>
  changes the lobby that the manager's map holds under \<open>lobbyID\<close>. The effects are in the
  order of the statements.
\<close>

definition JoinLobby ::
  "(ClientID \<Rightarrow> string \<Rightarrow> string + byte list) \<Rightarrow> LobbyManager \<Rightarrow> LobbyID \<Rightarrow> ClientID \<Rightarrow>
   string \<Rightarrow> Conn \<Rightarrow> LobbyJoinError option \<times> LobbyManager \<times> effect list" where
  "JoinLobby Serialize_PLAYER_JOINED lm lobbyID clientID clientIGN conn =
     (case Load (Lobbies lm) lobbyID of
        None \<Rightarrow>
          (Some \<lparr>Err_LobbyID = lobbyID, Err_Type = JoinErrorNotFound,
                 Err_Reason = ''Lobby does not exist''\<rparr>, lm, [])
      | Some lobby \<Rightarrow>
          if Lobby_Closing lobby
          then (Some \<lparr>Err_LobbyID = lobbyID, Err_Type = JoinErrorClosing,
                       Err_Reason = ''Lobby is closing''\<rparr>, lm, [])
          else if Load (Lobby_Clients lobby) clientID \<noteq> None
          then (Some \<lparr>Err_LobbyID = lobbyID, Err_Type = JoinErrorAlreadyInLobby,
                       Err_Reason = ''User is already in lobby''\<rparr>, lm, [])
          else
            let client = NewClient clientID clientIGN
                  (if Lobby_OwnerID lobby = clientID then ORIGIN_TYPE_OWNER else ORIGIN_TYPE_GUEST)
                  conn (Lobby_Encoding lobby)
            in (case Serialize_PLAYER_JOINED (Client_ID client) (Client_IGN client) of
                  Inl err \<Rightarrow>
                    (Some \<lparr>Err_LobbyID = lobbyID, Err_Type = JoinErrorSerializationFailure,
                           Err_Reason = ''Failed to serialize player joined message''\<rparr>, lm, [])
                | Inr msg \<Rightarrow>
                    (let lobby' = lobby\<lparr>Lobby_Clients :=
                                    Store (Lobby_Clients lobby) (Client_ID client) client\<rparr>
                     in (None,
                         lm\<lparr>Lobbies := Store (Lobbies lm) lobbyID lobby'\<rparr>,
                         [BroadcastMessage lobby SERVER_ID msg,
                          ClientsStore lobbyID (Client_ID client),
                          GoHandleConnection lobbyID client]))))"

text \<open>
  The two halves of \<open>JoinLobby\<close>. \<open>JoinLobby_prepare\<close> is lines 142 to 167: the load
  of the lobby, the checks, \<open>NewClient\<close> and \<open>Serialize\<close>. \<open>JoinLobby_commit\<close> is
  lines 169 to 176: the broadcast, the store and the start of the read loop, on the lobby as
  it is when they run. \<open>JoinLobby\<close> takes no lock (only \<open>IsJoinPossible\<close> locks
  \<open>lobby.Sync\<close>), so between the two halves of one call another goroutine may change the
  lobby; a call that runs alone commits on the state that it checked.
\<close>

definition JoinLobby_prepare ::
  "(ClientID \<Rightarrow> string \<Rightarrow> string + byte list) \<Rightarrow> LobbyManager \<Rightarrow> LobbyID \<Rightarrow> ClientID \<Rightarrow>
   string \<Rightarrow> Conn \<Rightarrow> LobbyJoinError + (Client \<times> byte list)" where
  "JoinLobby_prepare Serialize_PLAYER_JOINED lm lobbyID clientID clientIGN conn =
     (case Load (Lobbies lm) lobbyID of
        None \<Rightarrow>
          Inl \<lparr>Err_LobbyID = lobbyID, Err_Type = JoinErrorNotFound,
                Err_Reason = ''Lobby does not exist''\<rparr>
      | Some lobby \<Rightarrow>
          if Lobby_Closing lobby
          then Inl \<lparr>Err_LobbyID = lobbyID, Err_Type = JoinErrorClosing,
                     Err_Reason = ''Lobby is closing''\<rparr>
          else if Load (Lobby_Clients lobby) clientID \<noteq> None
          then Inl \<lparr>Err_LobbyID = lobbyID, Err_Type = JoinErrorAlreadyInLobby,
                     Err_Reason = ''User is already in lobby''\<rparr>
          else
            let client = NewClient clientID clientIGN
                  (if Lobby_OwnerID lobby = clientID then ORIGIN_TYPE_OWNER else ORIGIN_TYPE_GUEST)
                  conn (Lobby_Encoding lobby)
            in (case Serialize_PLAYER_JOINED (Client_ID client) (Client_IGN client) of
                  Inl err \<Rightarrow>
                    Inl \<lparr>Err_LobbyID = lobbyID, Err_Type = JoinErrorSerializationFailure,
                          Err_Reason = ''Failed to serialize player joined message''\<rparr>
                | Inr msg \<Rightarrow> Inr (client, msg)))"

definition JoinLobby_commit ::
  "LobbyID \<Rightarrow> Lobby \<Rightarrow> Client \<Rightarrow> byte list \<Rightarrow> Lobby \<times> effect list" where
  "JoinLobby_commit lobbyID lobby client msg =
     (lobby\<lparr>Lobby_Clients := Store (Lobby_Clients lobby) (Client_ID client) client\<rparr>,
      [BroadcastMessage lobby SERVER_ID msg,
       ClientsStore lobbyID (Client_ID client),
       GoHandleConnection lobbyID client])"

text \<open>
  \<open>ShutdownLobbyManager\<close>; its first two parameters are the buffers of
  \<open>SERVER_CLOSING_EVENT.CopyIDBytes()\<close> and of
  \<open>PrepareServerMessage(LOBBY_CLOSING_EVENT)\<close>.
\<close>

definition ShutdownLobbyManager ::
  "byte list \<Rightarrow> byte list \<Rightarrow> LobbyManager \<Rightarrow> LobbyManager \<times> effect list" where
  "ShutdownLobbyManager serverClosingMessage lobbyClosingMessage lm =
     (lm\<lparr>acceptsNewLobbies := False,
         Lobbies := map (\<lambda>(key, lobby). (key, fst (close lobbyClosingMessage lobby))) (Lobbies lm)\<rparr>,
      concat (map (\<lambda>(key, lobby).
                BroadcastMessage lobby SERVER_ID serverClosingMessage #
                snd (close lobbyClosingMessage lobby)) (Lobbies lm)))"

subsection \<open>Runs of the manager\<close>





section \<open>Concrete inputs\<close>

text \<open>
  Modelled from the spec: the canonical originator sets \<open>SERVER_ONLY\<close>, \<open>OWNER_ONLY\<close>
  and \<open>OWNER_AND_GUESTS\<close>, which src/unnamed/part_003 uses and no source file declares.
  The spec describes them as mappings from \<open>{Server, Owner, Guest}\<close> to \<open>bool\<close>.
\<close>

definition SERVER_ONLY :: "(OriginType \<times> bool) list" where
  "SERVER_ONLY =
     [(ORIGIN_TYPE_SERVER, True), (ORIGIN_TYPE_OWNER, False), (ORIGIN_TYPE_GUEST, False)]"

definition OWNER_ONLY :: "(OriginType \<times> bool) list" where
  "OWNER_ONLY =
     [(ORIGIN_TYPE_SERVER, False), (ORIGIN_TYPE_OWNER, True), (ORIGIN_TYPE_GUEST, False)]"

definition OWNER_AND_GUESTS :: "(OriginType \<times> bool) list" where
  "OWNER_AND_GUESTS =
     [(ORIGIN_TYPE_SERVER, False), (ORIGIN_TYPE_OWNER, True), (ORIGIN_TYPE_GUEST, True)]"

text \<open>
  An event of the shape that \<open>UpdateAny\<close> reads: two \<open>uint32\<close> elements, the second one
  the location, with the offsets and sizes that \<open>ComputeStructure\<close> gives them. The ID is
  arbitrary.
\<close>

definition example_PLAYER_MOVE_EVENT :: EventSpecification where
  "example_PLAYER_MOVE_EVENT =
     \<lparr>Spec_ID = 2005, Spec_Name = ''PlayerMove'', SendPermissions = OWNER_AND_GUESTS,
      Structure =
        [\<lparr>ByteSize = 4, Offset = 8, FieldName = ''playerID'', Description = ''Player ID'',
           Kind = Reflect_Uint32\<rparr>,
         \<lparr>ByteSize = 4, Offset = 12, FieldName = ''colonyLocationID'',
           Description = ''Colony Location ID'', Kind = Reflect_Uint32\<rparr>],
      ExpectedMinSize = 8\<rparr>"

text \<open>An event that only the owner may send, with no elements.\<close>

definition example_OWNER_EVENT :: EventSpecification where
  "example_OWNER_EVENT =
     \<lparr>Spec_ID = 1001, Spec_Name = ''OwnerOnlyEvent'', SendPermissions = OWNER_ONLY,
      Structure = [], ExpectedMinSize = 0\<rparr>"

text \<open>
  An environment for the read loop: the extraction reads a header of two big-endian
  \<open>uint32\<close>s and knows the two events above, every debug notification is delivered, and
  the decoder of text frames, which no example uses, returns its input.
\<close>

definition example_extract ::
  "byte list \<Rightarrow> string + (ClientID \<times> EventSpecification \<times> byte list)" where
  "example_extract msg =
     (case msg of
        b0 # b1 # b2 # b3 # b4 # b5 # b6 # b7 # payload \<Rightarrow>
          if u32_le b7 b6 b5 b4 = Spec_ID example_OWNER_EVENT
          then Inr (u32_le b3 b2 b1 b0, example_OWNER_EVENT, payload)
          else if u32_le b7 b6 b5 b4 = Spec_ID example_PLAYER_MOVE_EVENT
          then Inr (u32_le b3 b2 b1 b0, example_PLAYER_MOVE_EVENT, payload)
          else Inl ''unknown message''
      | _ \<Rightarrow> Inl ''malformed header'')"

definition example_env :: connection_env where
  "example_env =
     \<lparr>hex_DecodeString = (\<lambda>s. (s, False)),
      ExtractClientIDAndMessageID = example_extract,
      SendDebugInfoToClient = (\<lambda>recipient code. SendOk)\<rparr>"

definition example_configuration :: RuntimeConfiguration where
  "example_configuration = \<lparr>Config_Encoding = MESSAGE_ENCODING_BASE16\<rparr>"

definition example_Serialize :: "ClientID \<Rightarrow> string \<Rightarrow> string + byte list" where
  "example_Serialize playerID ign = Inr (LittleEndian_PutUint32 playerID @ map of_char ign)"

text \<open>
  The manager after \<open>CreateLobby(7, 42, binary)\<close> on a new manager, and after the owner 7
  and the guest 8 have joined the lobby; the lobby has the ID 2.
\<close>

definition example_manager_1 :: LobbyManager where
  "example_manager_1 =
     fst (snd (CreateLobby (CreateLobbyManager example_configuration) 7 42 MESSAGE_ENCODING_BINARY))"


definition example_manager_2 :: LobbyManager where
  "example_manager_2 =
     fst (snd (JoinLobby example_Serialize
       (fst (snd (JoinLobby example_Serialize example_manager_1 2 7 ''owner'' 100)))
       2 8 ''guest'' 101))"

definition example_owner :: Client where
  "example_owner = NewClient 7 ''owner'' ORIGIN_TYPE_OWNER 100 MESSAGE_ENCODING_BASE16"

definition example_guest :: Client where
  "example_guest = NewClient 8 ''guest'' ORIGIN_TYPE_GUEST 101 MESSAGE_ENCODING_BASE16"

definition example_lobby :: Lobby where
  "example_lobby =
     \<lparr>Lobby_ID = 2, Lobby_OwnerID = 7, Lobby_ColonyID = 42,
      Lobby_Clients = [(7, example_owner), (8, example_guest)],
      Lobby_Closing = False, Lobby_Encoding = MESSAGE_ENCODING_BASE16\<rparr>"


section \<open>Properties of the message structures\<close>

lemma variable_kind_has_size_0:
  "isKindOfVariableSize k \<Longrightarrow> sizeOfSerializedKind k = 0"
  by (cases k) simp_all

lemma ComputeStructure_loop_sizes:
  "ComputeStructure_loop name n i sd cs off hv mt = Inr (m, cs') \<Longrightarrow>
     m = mt + sum_list (map (\<lambda>e. sizeOfSerializedKind (ShortKind e)) sd) \<and>
     map ByteSize cs' = map ByteSize cs @ map (\<lambda>e. sizeOfSerializedKind (ShortKind e)) sd \<and>
     map Kind cs' = map Kind cs @ map ShortKind sd"
proof (induction sd arbitrary: i cs off mt)
  case Nil
  then show ?case by simp
next
  case (Cons element rest)
  from Cons.prems have valid: "isValidKind (ShortKind element)"
    by (auto split: if_splits)
  from Cons.prems valid
  have step: "ComputeStructure_loop name n (i + 1) rest
      (cs @ [\<lparr>ByteSize = sizeOfSerializedKind (ShortKind element), Offset = off,
               FieldName = ShortFieldName element, Description = ShortDescription element,
               Kind = ShortKind element\<rparr>])
      (off + sizeOfSerializedKind (ShortKind element)) hv
      (mt + sizeOfSerializedKind (ShortKind element)) = Inr (m, cs')"
    by (auto simp: Let_def split: if_splits)
  from Cons.IH [OF step] show ?case
    by (simp add: add.assoc)
qed

lemma sum_fixedSizeElements:
  "sum_list (map ByteSize (fixedSizeElements cs)) +
     sum_list (map ByteSize (filter (\<lambda>e. isKindOfVariableSize (Kind e)) cs)) =
   sum_list (map ByteSize cs)"
  unfolding fixedSizeElements_def
  by (induction cs) (simp_all add: add.assoc add.left_commute)

lemma ComputeStructure_ByteSize_of_Kind:
  assumes "ComputeStructure name sd = Inr (m, cs)" and "e \<in> set cs"
  shows "ByteSize e = sizeOfSerializedKind (Kind e)"
proof -
  from ComputeStructure_loop_sizes [OF assms(1) [unfolded ComputeStructure_def]]
  have bs: "map ByteSize cs = map (\<lambda>e. sizeOfSerializedKind (ShortKind e)) sd"
    and ks: "map Kind cs = map ShortKind sd"
    by simp_all
  have "map (\<lambda>e. sizeOfSerializedKind (Kind e)) cs = map sizeOfSerializedKind (map Kind cs)"
    by simp
  also have "\<dots> = map sizeOfSerializedKind (map ShortKind sd)"
    by (simp only: ks)
  also have "\<dots> = map ByteSize cs"
    by (simp add: bs)
  finally have "map ByteSize cs = map (\<lambda>e. sizeOfSerializedKind (Kind e)) cs"
    by simp
  with assms(2) show ?thesis
    by (metis (no_types, lifting) map_eq_conv)
qed

lemma variable_elements_sum_0:
  assumes "\<And>e. e \<in> set cs \<Longrightarrow> ByteSize e = sizeOfSerializedKind (Kind e)"
  shows "sum_list (map ByteSize (filter (\<lambda>e. isKindOfVariableSize (Kind e)) cs)) = 0"
  using assms by (induction cs) (auto simp: variable_kind_has_size_0)

text \<open>
  The size that \<open>ComputeStructure\<close> returns is the sum of the byte sizes of the
  fixed-size elements of the computed structure.
\<close>

lemma ComputeStructure_minimumTotalSize:
  assumes "ComputeStructure messageName shortDescription = Inr (minimumTotalSize, computedStructure)"
  shows "minimumTotalSize = sum_list (map ByteSize (fixedSizeElements computedStructure))"
proof -
  from ComputeStructure_loop_sizes [OF assms [unfolded ComputeStructure_def]]
  have total: "minimumTotalSize = sum_list (map ByteSize computedStructure)"
    by simp
  have "sum_list (map ByteSize
          (filter (\<lambda>e. isKindOfVariableSize (Kind e)) computedStructure)) = 0"
    by (rule variable_elements_sum_0) (rule ComputeStructure_ByteSize_of_Kind [OF assms])
  with sum_fixedSizeElements [of computedStructure] total show ?thesis
    by simp
qed

lemma ComputeStructure_loop_accepts:
  "n = i + length sd \<Longrightarrow> list_all (\<lambda>e. isValidKind (ShortKind e)) sd \<Longrightarrow>
   list_all (\<lambda>e. \<not> isKindOfVariableSize (ShortKind e)) (butlast sd) \<Longrightarrow>
   \<exists>r. ComputeStructure_loop name n i sd cs off False mt = Inr r"
proof (induction sd arbitrary: i cs off mt)
  case Nil
  then show ?case by simp
next
  case (Cons element rest)
  show ?case
  proof (cases "rest = []")
    case True
    with Cons.prems show ?thesis
      by (simp add: Let_def)
  next
    case False
    with Cons.prems have nv: "\<not> isKindOfVariableSize (ShortKind element)"
      and v: "isValidKind (ShortKind element)"
      and rest: "list_all (\<lambda>e. isValidKind (ShortKind e)) rest"
        "list_all (\<lambda>e. \<not> isKindOfVariableSize (ShortKind e)) (butlast rest)"
      and n: "n = (i + 1) + length rest"
      by simp_all
    from Cons.IH [OF n rest] nv v show ?thesis
      by (simp add: Let_def)
  qed
qed

lemma sum_fixed_sizes:
  "sum_list (fixed_sizes sd) = sum_list (map (\<lambda>e. sizeOfSerializedKind (ShortKind e)) sd)"
  unfolding fixed_sizes_def
  by (induction sd) (simp_all add: variable_kind_has_size_0)

text \<open>
  What \<open>ComputeStructure\<close> returns, in terms of its argument: when it returns, the size
  is the sum, in \<open>uint32\<close>, of the byte sizes of the fixed-size elements of the reference
  structure, with no header size added, and the computed structure has the sizes and kinds of
  the reference structure element by element; and it does return for every reference
  structure of valid kinds whose elements before the last are of fixed size.
\<close>

lemma ComputeStructure_sizes_of_input:
  "(ComputeStructure messageName shortDescription = Inr (minimumTotalSize, computedStructure) \<longrightarrow>
      minimumTotalSize = sum_list (fixed_sizes shortDescription) \<and>
      minimumTotalSize = sum_list (map ByteSize (fixedSizeElements computedStructure)) \<and>
      map ByteSize computedStructure =
        map (\<lambda>e. sizeOfSerializedKind (ShortKind e)) shortDescription \<and>
      map Kind computedStructure = map ShortKind shortDescription)
   \<and> (accepted_structure shortDescription \<longrightarrow>
      (\<exists>cs. ComputeStructure messageName shortDescription =
              Inr (sum_list (fixed_sizes shortDescription), cs)))"
proof (intro conjI impI)
  assume a: "ComputeStructure messageName shortDescription = Inr (minimumTotalSize, computedStructure)"
  from ComputeStructure_loop_sizes [OF a [unfolded ComputeStructure_def]]
  show "minimumTotalSize = sum_list (fixed_sizes shortDescription)"
    and "map ByteSize computedStructure =
        map (\<lambda>e. sizeOfSerializedKind (ShortKind e)) shortDescription"
    and "map Kind computedStructure = map ShortKind shortDescription"
    by (simp_all add: sum_fixed_sizes)
  from ComputeStructure_minimumTotalSize [OF a]
  show "minimumTotalSize = sum_list (map ByteSize (fixedSizeElements computedStructure))" .
next
  assume "accepted_structure shortDescription"
  then obtain r where r: "ComputeStructure messageName shortDescription = Inr r"
    using ComputeStructure_loop_accepts [of "length shortDescription" 0 shortDescription
        messageName "[]" MESSAGE_HEADER_SIZE 0]
    by (auto simp: accepted_structure_def ComputeStructure_def)
  obtain m cs where "r = (m, cs)" by (cases r)
  with r ComputeStructure_loop_sizes [of messageName "length shortDescription" 0 shortDescription
      "[]" MESSAGE_HEADER_SIZE False 0 m cs]
  show "\<exists>cs. ComputeStructure messageName shortDescription =
              Inr (sum_list (fixed_sizes shortDescription), cs)"
    by (auto simp: ComputeStructure_def sum_fixed_sizes)
qed

text \<open>
  Claim C2. The claim is that the minimum total size that \<open>ComputeStructure\<close> returns is
  8, the header size, plus the sum of the byte sizes of the fixed-size elements, which is also
  what its doc comment promises (the minimum total size of any message of this description).
  The code returns the sum without the header: 0 and not 8 for the empty structure of
  \<open>GAME_WON_EVENT\<close>, and 15 and not 23 for the seven elements of
  \<open>ASTEROID_SPAWN_EVENT\<close>.
\<close>

theorem ComputeStructure_omits_header_size:
  "ComputeStructure ''AsteroidsGameWon'' REFERENCE_STRUCTURE_EMPTY = Inr (0, [])
   \<and> (0 :: u32) \<noteq> 8 + sum_list (map ByteSize (fixedSizeElements []))
   \<and> map_sum id fst (ComputeStructure ''AsteroidsAsteroidSpawn'' ASTEROID_SPAWN_STRUCTURE) = Inr 15
   \<and> map_sum id (\<lambda>r. sum_list (map ByteSize (fixedSizeElements (snd r))))
        (ComputeStructure ''AsteroidsAsteroidSpawn'' ASTEROID_SPAWN_STRUCTURE) = Inr 15
   \<and> (15 :: u32) \<noteq> 8 + 15"
  by (simp add: ComputeStructure_def REFERENCE_STRUCTURE_EMPTY_def ASTEROID_SPAWN_STRUCTURE_def
      NewElementDescriptor_def MESSAGE_HEADER_SIZE_def fixedSizeElements_def)

section \<open>Properties of the lobby manager\<close>

lemma example_manager_1_eq:
  "example_manager_1 =
     \<lparr>Lobbies = [(2, NewLobby 2 7 42 MESSAGE_ENCODING_BASE16)], nextLobbyID = 2,
      acceptsNewLobbies = True, configuration = example_configuration\<rparr>"
  by (simp add: example_manager_1_def CreateLobby_def CreateLobbyManager_def
      example_configuration_def Store_def Let_def)

lemma example_manager_2_eq:
  "example_manager_2 =
     \<lparr>Lobbies = [(2, example_lobby)], nextLobbyID = 2,
      acceptsNewLobbies = True, configuration = example_configuration\<rparr>"
  by (simp add: example_manager_1_eq example_manager_2_def JoinLobby_def Load_def Store_def
      NewLobby_def example_Serialize_def example_lobby_def example_owner_def example_guest_def
      Let_def NewClient_def)






lemma example_manager_closed_eq:
  "fst (ShutdownLobbyManager [] [] example_manager_2) =
     \<lparr>Lobbies = [(2, example_lobby\<lparr>Lobby_Closing := True\<rparr>)], nextLobbyID = 2,
      acceptsNewLobbies = False, configuration = example_configuration\<rparr>"
  by (simp add: example_manager_2_eq ShutdownLobbyManager_def close_def)


lemma Load_after_UnregisterLobby:
  "Load (Lobbies (fst (UnregisterLobby lm L))) (Lobby_ID L) = None"
  by (simp add: UnregisterLobby_def LoadAndDelete_def Load_def delete_conv' split: option.splits)

text \<open>
  Claim C4, as amended. For every lobby \<open>L\<close> whose \<open>Closing\<close> flag is set, a join
  attempt made while the manager still holds \<open>L\<close> under its ID fails with the closing
  error: both \<open>IsJoinPossible\<close> and \<open>JoinLobby\<close> return a \<open>LobbyJoinError\<close> of type
  \<open>JoinErrorClosing\<close>, with no effect, and \<open>JoinLobby\<close> leaves the manager, and so the
  client map of \<open>L\<close>, as it was. Once \<open>UnregisterLobby\<close> has removed \<open>L\<close>, as the
  drainer of the close queue does after \<open>close\<close> has queued it, a join attempt with the ID
  of \<open>L\<close> fails with \<open>JoinErrorNotFound\<close> instead, \<open>IsJoinPossible\<close> also starting
  the request to close the colony, and again nothing is changed.
\<close>

theorem closing_lobby_rejects_joins:
  assumes "Load (Lobbies lm) lobbyID = Some L" and "Lobby_Closing L"
  shows "IsJoinPossible lm lobbyID clientID colonyID colonyOwnerID =
           (Some \<lparr>Err_LobbyID = lobbyID, Err_Type = JoinErrorClosing,
                  Err_Reason = ''Lobby is closing''\<rparr>, [])
         \<and> JoinLobby S lm lobbyID clientID clientIGN conn =
           (Some \<lparr>Err_LobbyID = lobbyID, Err_Type = JoinErrorClosing,
                  Err_Reason = ''Lobby is closing''\<rparr>, lm, [])
         \<and> (Lobby_ID L = lobbyID \<longrightarrow>
              IsJoinPossible (fst (UnregisterLobby lm L)) lobbyID clientID colonyID colonyOwnerID =
                (Some \<lparr>Err_LobbyID = lobbyID, Err_Type = JoinErrorNotFound,
                       Err_Reason = ''Lobby does not exist''\<rparr>,
                 [GoCloseColony colonyID colonyOwnerID]) \<and>
              JoinLobby S (fst (UnregisterLobby lm L)) lobbyID clientID clientIGN conn =
                (Some \<lparr>Err_LobbyID = lobbyID, Err_Type = JoinErrorNotFound,
                       Err_Reason = ''Lobby does not exist''\<rparr>,
                 fst (UnregisterLobby lm L), []))"
proof (intro conjI impI)
  from assms show "IsJoinPossible lm lobbyID clientID colonyID colonyOwnerID =
           (Some \<lparr>Err_LobbyID = lobbyID, Err_Type = JoinErrorClosing,
                  Err_Reason = ''Lobby is closing''\<rparr>, [])"
    by (simp add: IsJoinPossible_def)
  from assms show "JoinLobby S lm lobbyID clientID clientIGN conn =
           (Some \<lparr>Err_LobbyID = lobbyID, Err_Type = JoinErrorClosing,
                  Err_Reason = ''Lobby is closing''\<rparr>, lm, [])"
    by (simp add: JoinLobby_def)
next
  assume "Lobby_ID L = lobbyID"
  with Load_after_UnregisterLobby [of lm L]
  have gone: "Load (Lobbies (fst (UnregisterLobby lm L))) lobbyID = None"
    by simp
  then show "IsJoinPossible (fst (UnregisterLobby lm L)) lobbyID clientID colonyID colonyOwnerID =
                (Some \<lparr>Err_LobbyID = lobbyID, Err_Type = JoinErrorNotFound,
                       Err_Reason = ''Lobby does not exist''\<rparr>,
                 [GoCloseColony colonyID colonyOwnerID])"
    by (simp add: IsJoinPossible_def)
  from gone show "JoinLobby S (fst (UnregisterLobby lm L)) lobbyID clientID clientIGN conn =
                (Some \<lparr>Err_LobbyID = lobbyID, Err_Type = JoinErrorNotFound,
                       Err_Reason = ''Lobby does not exist''\<rparr>,
                 fst (UnregisterLobby lm L), [])"
    by (simp add: JoinLobby_def)
qed

text \<open>
  The theorem at the lobby 2 after \<open>ShutdownLobbyManager\<close> has closed it, before and
  after its removal.
\<close>

theorem closing_lobby_rejects_joins_witness:
  "Load (Lobbies (fst (ShutdownLobbyManager [] [] example_manager_2))) 2 =
     Some (example_lobby\<lparr>Lobby_Closing := True\<rparr>)
   \<and> Lobby_Closing (example_lobby\<lparr>Lobby_Closing := True\<rparr>)
   \<and> Lobby_ID (example_lobby\<lparr>Lobby_Closing := True\<rparr>) = 2
   \<and> IsJoinPossible (fst (ShutdownLobbyManager [] [] example_manager_2)) 2 9 42 7 =
       (Some \<lparr>Err_LobbyID = 2, Err_Type = JoinErrorClosing, Err_Reason = ''Lobby is closing''\<rparr>, [])
   \<and> JoinLobby example_Serialize (fst (ShutdownLobbyManager [] [] example_manager_2)) 2 9 ''late'' 102 =
       (Some \<lparr>Err_LobbyID = 2, Err_Type = JoinErrorClosing, Err_Reason = ''Lobby is closing''\<rparr>,
        fst (ShutdownLobbyManager [] [] example_manager_2), [])
   \<and> IsJoinPossible
        (fst (UnregisterLobby (fst (ShutdownLobbyManager [] [] example_manager_2))
           (example_lobby\<lparr>Lobby_Closing := True\<rparr>))) 2 9 42 7 =
       (Some \<lparr>Err_LobbyID = 2, Err_Type = JoinErrorNotFound,
              Err_Reason = ''Lobby does not exist''\<rparr>, [GoCloseColony 42 7])"
proof -
  have ld: "Load (Lobbies (fst (ShutdownLobbyManager [] [] example_manager_2))) 2 =
     Some (example_lobby\<lparr>Lobby_Closing := True\<rparr>)"
    by (simp add: example_manager_closed_eq Load_def)
  have cl: "Lobby_Closing (example_lobby\<lparr>Lobby_Closing := True\<rparr>)"
    by simp
  have lid: "Lobby_ID (example_lobby\<lparr>Lobby_Closing := True\<rparr>) = 2"
    by (simp add: example_lobby_def)
  from closing_lobby_rejects_joins [OF ld cl, where clientID = 9 and colonyID = 42
      and colonyOwnerID = 7 and S = example_Serialize and clientIGN = "''late''" and conn = 102]
    ld cl lid
  show ?thesis
    by simp
qed

text \<open>
  The claim as stated (every later join attempt against a closing lobby fails with the
  closing error) fails: the shutdown sets the flag of the lobby 2 and queues it, the drainer
  unregisters it, and a join attempt with the ID 2 then fails with \<open>JoinErrorNotFound\<close>.
\<close>

theorem join_after_unregister_counterexample:
  "Load (Lobbies (fst (ShutdownLobbyManager [] [] example_manager_2))) 2 =
     Some (example_lobby\<lparr>Lobby_Closing := True\<rparr>)
   \<and> Lobby_Closing (example_lobby\<lparr>Lobby_Closing := True\<rparr>)
   \<and> CloseQueueSend 2 \<in> set (snd (ShutdownLobbyManager [] [] example_manager_2))
   \<and> IsJoinPossible
        (fst (UnregisterLobby (fst (ShutdownLobbyManager [] [] example_manager_2))
           (example_lobby\<lparr>Lobby_Closing := True\<rparr>))) 2 9 42 7 =
       (Some \<lparr>Err_LobbyID = 2, Err_Type = JoinErrorNotFound,
              Err_Reason = ''Lobby does not exist''\<rparr>, [GoCloseColony 42 7])
   \<and> fst (JoinLobby example_Serialize
        (fst (UnregisterLobby (fst (ShutdownLobbyManager [] [] example_manager_2))
           (example_lobby\<lparr>Lobby_Closing := True\<rparr>))) 2 9 ''late'' 102) =
       Some \<lparr>Err_LobbyID = 2, Err_Type = JoinErrorNotFound,
             Err_Reason = ''Lobby does not exist''\<rparr>
   \<and> JoinErrorNotFound \<noteq> JoinErrorClosing"
  by (simp add: example_manager_closed_eq Load_def UnregisterLobby_def LoadAndDelete_def
      IsJoinPossible_def JoinLobby_def)
    (simp add: example_manager_2_eq ShutdownLobbyManager_def close_def example_lobby_def)

lemma clients_keyed_by_ID_Load:
  "clients_keyed_by_ID lobby \<Longrightarrow> Load (Lobby_Clients lobby) k = Some c \<Longrightarrow> Client_ID c = k"
  by (auto simp: clients_keyed_by_ID_def Load_def list_all_iff dest!: map_of_SomeD)


lemma JoinLobby_success:
  assumes "Load (Lobbies lm) lobbyID = Some L" and "\<not> Lobby_Closing L"
    and "Load (Lobby_Clients L) clientID = None" and "S clientID clientIGN = Inr msg"
  shows "JoinLobby S lm lobbyID clientID clientIGN conn =
     (None,
      lm\<lparr>Lobbies := Store (Lobbies lm) lobbyID
           (L\<lparr>Lobby_Clients := Store (Lobby_Clients L) clientID
                (NewClient clientID clientIGN
                   (if Lobby_OwnerID L = clientID then ORIGIN_TYPE_OWNER else ORIGIN_TYPE_GUEST)
                   conn (Lobby_Encoding L))\<rparr>)\<rparr>,
      [BroadcastMessage L SERVER_ID msg, ClientsStore lobbyID clientID,
       GoHandleConnection lobbyID
         (NewClient clientID clientIGN
            (if Lobby_OwnerID L = clientID then ORIGIN_TYPE_OWNER else ORIGIN_TYPE_GUEST)
            conn (Lobby_Encoding L))])"
  using assms by (simp add: JoinLobby_def Let_def NewClient_def)


text \<open>
  Claim C5, as amended. \<open>SERVER_ID = 0xFFFFFFFF\<close> is the sender ID of the server's own
  messages, but \<open>JoinLobby\<close> does not reserve it: a join attempt with
  \<open>clientID = 0xFFFFFFFF\<close> passes through the same checks as any other ID, and when the
  lobby exists, is not closing and holds no client of that ID, and the serialization succeeds,
  a client with the ID \<open>0xFFFFFFFF\<close> is created, stored in the client map of the lobby and
  given a read loop.
\<close>

theorem JoinLobby_does_not_reserve_SERVER_ID:
  assumes "Load (Lobbies lm) lobbyID = Some L" and "\<not> Lobby_Closing L"
    and "Load (Lobby_Clients L) SERVER_ID = None" and "S SERVER_ID clientIGN = Inr msg"
  shows "\<exists>lm' L' client effects.
           JoinLobby S lm lobbyID SERVER_ID clientIGN conn = (None, lm', effects) \<and>
           GoHandleConnection lobbyID client \<in> set effects \<and>
           Load (Lobbies lm') lobbyID = Some L' \<and>
           Load (Lobby_Clients L') SERVER_ID = Some client \<and>
           Client_ID client = 0xFFFFFFFF"
proof -
  let ?client = "NewClient SERVER_ID clientIGN
     (if Lobby_OwnerID L = SERVER_ID then ORIGIN_TYPE_OWNER else ORIGIN_TYPE_GUEST)
     conn (Lobby_Encoding L)"
  let ?L' = "L\<lparr>Lobby_Clients := Store (Lobby_Clients L) SERVER_ID ?client\<rparr>"
  let ?lm' = "lm\<lparr>Lobbies := Store (Lobbies lm) lobbyID ?L'\<rparr>"
  from JoinLobby_success [where S = S and clientID = SERVER_ID and clientIGN = clientIGN, OF assms]
  have "JoinLobby S lm lobbyID SERVER_ID clientIGN conn =
      (None, ?lm', [BroadcastMessage L SERVER_ID msg, ClientsStore lobbyID SERVER_ID,
         GoHandleConnection lobbyID ?client])" .
  moreover have "Load (Lobbies ?lm') lobbyID = Some ?L'"
    by (simp add: Load_def Store_def update_conv')
  moreover have "Load (Lobby_Clients ?L') SERVER_ID = Some ?client"
    by (simp add: Load_def Store_def update_conv')
  moreover have "Client_ID ?client = 0xFFFFFFFF"
    by (simp add: NewClient_def SERVER_ID_def)
  ultimately show ?thesis
    by (intro exI [of _ ?lm'] exI [of _ ?L'] exI [of _ ?client]) simp
qed

text \<open>The theorem at the lobby 2 before anyone has joined it.\<close>

theorem JoinLobby_does_not_reserve_SERVER_ID_witness:
  "Load (Lobbies example_manager_1) 2 = Some (NewLobby 2 7 42 MESSAGE_ENCODING_BASE16)
   \<and> \<not> Lobby_Closing (NewLobby 2 7 42 MESSAGE_ENCODING_BASE16)
   \<and> Load (Lobby_Clients (NewLobby 2 7 42 MESSAGE_ENCODING_BASE16)) SERVER_ID = None
   \<and> example_Serialize SERVER_ID ''server'' = Inr [255, 255, 255, 255, 115, 101, 114, 118, 101, 114]
   \<and> (\<exists>lm' L' client effects.
        JoinLobby example_Serialize example_manager_1 2 SERVER_ID ''server'' 102 = (None, lm', effects) \<and>
        GoHandleConnection 2 client \<in> set effects \<and>
        Load (Lobbies lm') 2 = Some L' \<and>
        Load (Lobby_Clients L') SERVER_ID = Some client \<and>
        Client_ID client = 0xFFFFFFFF)"
proof -
  have h1: "Load (Lobbies example_manager_1) 2 = Some (NewLobby 2 7 42 MESSAGE_ENCODING_BASE16)"
    by (simp add: example_manager_1_eq Load_def)
  have h2: "\<not> Lobby_Closing (NewLobby 2 7 42 MESSAGE_ENCODING_BASE16)"
    and h3: "Load (Lobby_Clients (NewLobby 2 7 42 MESSAGE_ENCODING_BASE16)) SERVER_ID = None"
    by (simp_all add: NewLobby_def Load_def)
  have h4: "example_Serialize SERVER_ID ''server'' =
      Inr [255, 255, 255, 255, 115, 101, 114, 118, 101, 114]"
    by (simp add: example_Serialize_def SERVER_ID_def LittleEndian_PutUint32_def)
  from JoinLobby_does_not_reserve_SERVER_ID [where S = example_Serialize
      and clientIGN = "''server''" and conn = 102, OF h1 h2 h3 h4] h1 h2 h3 h4
  show ?thesis
    by simp
qed

text \<open>
  The claim as stated (no client with the ID \<open>0xFFFFFFFF\<close> is ever created or inserted)
  fails: the join of \<open>0xFFFFFFFF\<close> to the lobby of the owner 7 and the guest 8 returns no
  error, the client map then holds a client under \<open>0xFFFFFFFF\<close> whose ID is
  \<open>SERVER_ID\<close>, and a read loop is started for it.
\<close>

theorem SERVER_ID_client_counterexample:
  "fst (JoinLobby example_Serialize example_manager_2 2 0xFFFFFFFF ''intruder'' 102) = None
   \<and> Option.bind
        (Load (Lobbies (fst (snd (JoinLobby example_Serialize example_manager_2 2 0xFFFFFFFF
           ''intruder'' 102)))) 2)
        (\<lambda>L. map_option Client_ID (Load (Lobby_Clients L) 0xFFFFFFFF)) = Some SERVER_ID
   \<and> GoHandleConnection 2
        (NewClient 0xFFFFFFFF ''intruder'' ORIGIN_TYPE_GUEST 102 MESSAGE_ENCODING_BASE16)
      \<in> set (snd (snd (JoinLobby example_Serialize example_manager_2 2 0xFFFFFFFF ''intruder'' 102)))"
  by (simp add: example_manager_2_eq JoinLobby_def Load_def Store_def example_lobby_def
      example_Serialize_def Let_def NewClient_def SERVER_ID_def)

lemma JoinLobby_prepare_commit:
  "JoinLobby S lm lobbyID clientID clientIGN conn =
     (case JoinLobby_prepare S lm lobbyID clientID clientIGN conn of
        Inl e \<Rightarrow> (Some e, lm, [])
      | Inr (client, msg) \<Rightarrow>
          (case Load (Lobbies lm) lobbyID of
             None \<Rightarrow> (None, lm, [])
           | Some lobby \<Rightarrow>
               (case JoinLobby_commit lobbyID lobby client msg of
                  (lobby', effects) \<Rightarrow>
                    (None, lm\<lparr>Lobbies := Store (Lobbies lm) lobbyID lobby'\<rparr>, effects))))"
  by (simp add: JoinLobby_def JoinLobby_prepare_def JoinLobby_commit_def Let_def
      split: option.splits sum.splits)

lemma JoinLobby_prepare_client:
  "JoinLobby_prepare S lm lobbyID clientID clientIGN conn = Inr (client, msg) \<Longrightarrow>
     Client_ID client = clientID \<and>
     (\<exists>L. Load (Lobbies lm) lobbyID = Some L \<and> \<not> Lobby_Closing L \<and>
          Load (Lobby_Clients L) clientID = None)"
  by (auto simp: JoinLobby_prepare_def Let_def NewClient_def
      split: option.splits if_splits sum.splits)

(* C2 *)





section \<open>Properties of the lobby IDs\<close>













text \<open>
  The bound of the theorem is needed: a counter that has reached \<open>0xFFFFFFFF\<close> wraps
  around, and the next lobby receives the ID 0.
\<close>

lemma CreateLobby_counter_wraps:
  "map_sum id Lobby_ID
     (fst (CreateLobby \<lparr>Lobbies = [], nextLobbyID = 0xFFFFFFFF, acceptsNewLobbies = True,
                        configuration = example_configuration\<rparr> 7 42 MESSAGE_ENCODING_BINARY)) =
   Inr 0"
  by (simp add: CreateLobby_def NewLobby_def Let_def)

section \<open>Properties of the read loop\<close>

lemma debug_or_break_no_dispatch:
  "\<not> is_dispatch (snd rest) \<Longrightarrow> \<not> is_dispatch (snd (debug_or_break env recipient code rest))"
  by (simp add: debug_or_break_def split: send_result.splits)

lemma debug_or_break_Continue:
  "debug_or_break env recipient code ([], Continue) =
     ([(recipient, code)],
      case SendDebugInfoToClient env recipient code of
        SendOk \<Rightarrow> Continue | SendError \<Rightarrow> Break | SendPanic \<Rightarrow> Panicked)"
  by (simp add: debug_or_break_def split: send_result.splits)

lemma debug_or_break_dispatch:
  "debug_or_break env recipient code rest = (calls, ProcessClientMessage cl spec remainder) \<Longrightarrow>
     snd rest = ProcessClientMessage cl spec remainder"
  by (auto simp: debug_or_break_def split: send_result.splits)

lemma handleConnection_checks_dispatch:
  assumes "snd (handleConnection_checks env lobby client msg) = ProcessClientMessage cl spec remainder"
  shows "\<exists>senderID. ExtractClientIDAndMessageID env msg = Inr (senderID, spec, remainder) \<and>
           Load (Lobby_Clients lobby) senderID = Some cl \<and>
           SendPermissions_at spec (Client_Type cl)"
proof (cases "ExtractClientIDAndMessageID env msg")
  case (Inl e)
  with assms show ?thesis
    by (simp add: handleConnection_checks_def debug_or_break_Continue split: send_result.splits)
next
  case (Inr r)
  obtain senderID spec' remainder' where r: "r = (senderID, spec', remainder')"
    by (cases r)
  show ?thesis
  proof (cases "Load (Lobby_Clients lobby) senderID")
    case None
    with assms Inr r show ?thesis
      by (simp add: handleConnection_checks_def debug_or_break_Continue split: send_result.splits)
  next
    case (Some cl')
    with assms Inr r show ?thesis
      by (simp add: handleConnection_checks_def debug_or_break_Continue
          split: send_result.splits if_splits)
  qed
qed

lemma handleConnection_body_dispatch_frame:
  assumes "handleConnection_body env lobby client fr = (calls, ProcessClientMessage cl spec remainder)"
  shows "\<exists>dataType payload. fr = Frame dataType payload \<and>
           (dataType = TextMessage \<or> dataType = BinaryMessage) \<and>
           snd (handleConnection_checks env lobby client (frame_message env dataType payload)) =
             ProcessClientMessage cl spec remainder"
proof (cases fr)
  case ReadError
  with assms show ?thesis
    by (simp add: handleConnection_body_def)
next
  case (Frame dataType payload)
  show ?thesis
  proof (cases "dataType = TextMessage")
    case True
    obtain msg' decodeErr where h: "hex_DecodeString env payload = (msg', decodeErr)"
      by (cases "hex_DecodeString env payload")
    then have fm: "frame_message env dataType payload = msg'"
      using True by (simp add: frame_message_def)
    show ?thesis
    proof (cases decodeErr)
      case True
      with assms Frame \<open>dataType = TextMessage\<close> h
      have "debug_or_break env (Some client) 400 (handleConnection_checks env lobby client msg') =
          (calls, ProcessClientMessage cl spec remainder)"
        by (simp add: handleConnection_body_def)
      from debug_or_break_dispatch [OF this] Frame \<open>dataType = TextMessage\<close> fm show ?thesis
        by simp
    next
      case False
      with assms Frame \<open>dataType = TextMessage\<close> h fm show ?thesis
        by (simp add: handleConnection_body_def)
    qed
  next
    case False
    then have fm: "frame_message env dataType payload = payload"
      by (simp add: frame_message_def)
    show ?thesis
    proof (cases "dataType = BinaryMessage")
      case True
      with assms Frame False fm show ?thesis
        by (simp add: handleConnection_body_def)
    next
      case nb: False
      with assms Frame False show ?thesis
        by (simp add: handleConnection_body_def debug_or_break_Continue split: send_result.splits)
    qed
  qed
qed

lemma handleConnection_body_binary:
  "handleConnection_body env lobby client (Frame BinaryMessage msg) =
     handleConnection_checks env lobby client msg"
  by (simp add: handleConnection_body_def TextMessage_def BinaryMessage_def)

lemma handleConnection_body_text:
  "hex_DecodeString env hexed = (msg, False) \<Longrightarrow>
     handleConnection_body env lobby client (Frame TextMessage hexed) =
       handleConnection_checks env lobby client msg"
  by (simp add: handleConnection_body_def)

text \<open>
  What the checks of the read loop do establish. When an iteration on the session of a client
  \<open>C\<close> passes a message to \<open>processClientMessage\<close>, the frame was a text or a binary
  frame, the sender ID that the extraction read from the message of that frame is a key of the
  client map of the lobby, the client passed on is the one stored under that key (its ID is
  the sender ID when every client is stored under its own ID), and the originator permission
  of the specification for the origin type of that client is true. A message whose sender is
  in the client map but lacks the permission is answered with \<open>Debug(401)\<close> addressed to
  the client stored under the sender ID and is not passed on; a message whose sender ID is
  not in the client map is not passed on either. Nothing compares the sender ID with the ID
  of \<open>C\<close>.
\<close>

lemma dispatch_checks_sender_in_lobby:
  "(handleConnection_body env lobby C fr = (calls, ProcessClientMessage cl spec remainder) \<longrightarrow>
      (\<exists>dataType payload senderID.
         fr = Frame dataType payload \<and>
         (dataType = TextMessage \<or> dataType = BinaryMessage) \<and>
         ExtractClientIDAndMessageID env (frame_message env dataType payload) =
           Inr (senderID, spec, remainder) \<and>
         Load (Lobby_Clients lobby) senderID = Some cl \<and>
         SendPermissions_at spec (Client_Type cl) \<and>
         (clients_keyed_by_ID lobby \<longrightarrow> Client_ID cl = senderID)))
   \<and> (ExtractClientIDAndMessageID env m = Inr (sender, sp, rm) \<and>
       Load (Lobby_Clients lobby) sender = Some c \<and> \<not> SendPermissions_at sp (Client_Type c) \<longrightarrow>
      handleConnection_checks env lobby C m =
        ([(Some c, 401)],
         case SendDebugInfoToClient env (Some c) 401 of
           SendOk \<Rightarrow> Continue | SendError \<Rightarrow> Break | SendPanic \<Rightarrow> Panicked) \<and>
      \<not> is_dispatch (snd (handleConnection_checks env lobby C m)) \<and>
      \<not> is_dispatch (snd (handleConnection_body env lobby C (Frame BinaryMessage m))))
   \<and> (ExtractClientIDAndMessageID env m = Inr (sender, sp, rm) \<and>
       Load (Lobby_Clients lobby) sender = None \<longrightarrow>
      \<not> is_dispatch (snd (handleConnection_checks env lobby C m)) \<and>
      \<not> is_dispatch (snd (handleConnection_body env lobby C (Frame BinaryMessage m))))"
proof (intro conjI impI)
  assume a: "handleConnection_body env lobby C fr = (calls, ProcessClientMessage cl spec remainder)"
  from handleConnection_body_dispatch_frame [OF a] obtain dataType payload where
    fr: "fr = Frame dataType payload" "dataType = TextMessage \<or> dataType = BinaryMessage"
    and "snd (handleConnection_checks env lobby C (frame_message env dataType payload)) =
           ProcessClientMessage cl spec remainder"
    by blast
  from handleConnection_checks_dispatch [OF this(3)] obtain senderID where
    h: "ExtractClientIDAndMessageID env (frame_message env dataType payload) =
          Inr (senderID, spec, remainder)"
       "Load (Lobby_Clients lobby) senderID = Some cl"
       "SendPermissions_at spec (Client_Type cl)"
    by blast
  then have "clients_keyed_by_ID lobby \<longrightarrow> Client_ID cl = senderID"
    by (auto dest: clients_keyed_by_ID_Load)
  with h fr show "\<exists>dataType payload senderID.
         fr = Frame dataType payload \<and>
         (dataType = TextMessage \<or> dataType = BinaryMessage) \<and>
         ExtractClientIDAndMessageID env (frame_message env dataType payload) =
           Inr (senderID, spec, remainder) \<and>
         Load (Lobby_Clients lobby) senderID = Some cl \<and>
         SendPermissions_at spec (Client_Type cl) \<and>
         (clients_keyed_by_ID lobby \<longrightarrow> Client_ID cl = senderID)"
    by blast
next
  assume a: "ExtractClientIDAndMessageID env m = Inr (sender, sp, rm) \<and>
       Load (Lobby_Clients lobby) sender = Some c \<and> \<not> SendPermissions_at sp (Client_Type c)"
  then show b: "handleConnection_checks env lobby C m =
        ([(Some c, 401)],
         case SendDebugInfoToClient env (Some c) 401 of
           SendOk \<Rightarrow> Continue | SendError \<Rightarrow> Break | SendPanic \<Rightarrow> Panicked)"
    by (simp add: handleConnection_checks_def debug_or_break_Continue)
  show c: "\<not> is_dispatch (snd (handleConnection_checks env lobby C m))"
    by (simp add: b split: send_result.splits)
  from c show "\<not> is_dispatch (snd (handleConnection_body env lobby C (Frame BinaryMessage m)))"
    by (simp add: handleConnection_body_binary)
next
  assume a: "ExtractClientIDAndMessageID env m = Inr (sender, sp, rm) \<and>
       Load (Lobby_Clients lobby) sender = None"
  then show c: "\<not> is_dispatch (snd (handleConnection_checks env lobby C m))"
    by (simp add: handleConnection_checks_def debug_or_break_Continue split: send_result.splits)
  from c show "\<not> is_dispatch (snd (handleConnection_body env lobby C (Frame BinaryMessage m)))"
    by (simp add: handleConnection_body_binary)
qed

(* ---------- C4 ---------- *)

text \<open>
  Claim C9. In the unknown-sender branch of the read loop (the sender ID of the header is not
  a key of the client map of the lobby) the client passed to \<open>SendDebugInfoToClient\<close> is
  the \<open>nil\<close> result of the failed load, not the client of the session: the one debug call
  of the iteration has the recipient \<open>nil\<close> and the code 401, and no call with the code 401
  is made for the client of the session.
\<close>

theorem unknown_sender_debug_recipient_is_nil:
  assumes "ExtractClientIDAndMessageID env msg = Inr (clientID, spec, remainder)"
    and "Load (Lobby_Clients lobby) clientID = None"
  shows "handleConnection_body env lobby client (Frame BinaryMessage msg) =
           ([(None, 401)],
            case SendDebugInfoToClient env None 401 of
              SendOk \<Rightarrow> Continue | SendError \<Rightarrow> Break | SendPanic \<Rightarrow> Panicked)
         \<and> (Some client, 401) \<notin> set (fst (handleConnection_body env lobby client (Frame BinaryMessage msg)))
         \<and> fst (handleConnection_checks env lobby client msg) = [(None, 401)]"
  using assms
  by (simp add: handleConnection_body_def handleConnection_checks_def debug_or_break_Continue
      TextMessage_def BinaryMessage_def)

lemma example_extract_owner_event:
  "example_extract [0, 0, 0, 7, 0, 0, 3, 233] = Inr (7, example_OWNER_EVENT, [])"
  by (simp add: example_extract_def u32_le_def example_OWNER_EVENT_def)

lemma example_extract_guest_sender:
  "example_extract [0, 0, 0, 8, 0, 0, 3, 233] = Inr (8, example_OWNER_EVENT, [])"
  by (simp add: example_extract_def u32_le_def example_OWNER_EVENT_def)

lemma example_extract_unknown_sender:
  "example_extract [0, 0, 0, 9, 0, 0, 3, 233] = Inr (9, example_OWNER_EVENT, [])"
  by (simp add: example_extract_def u32_le_def example_OWNER_EVENT_def)

lemma example_lobby_Load:
  "Load (Lobby_Clients example_lobby) 7 = Some example_owner"
  "Load (Lobby_Clients example_lobby) 8 = Some example_guest"
  "Load (Lobby_Clients example_lobby) 9 = None"
  by (simp_all add: example_lobby_def Load_def)

lemma example_permissions:
  "SendPermissions_at example_OWNER_EVENT (Client_Type example_owner)"
  "\<not> SendPermissions_at example_OWNER_EVENT (Client_Type example_guest)"
  by (simp_all add: SendPermissions_at_def example_OWNER_EVENT_def OWNER_ONLY_def
      example_owner_def example_guest_def NewClient_def)

text \<open>
  The theorem in the lobby of the owner 7 and the guest 8, for an event that only the owner
  may send: the owner's own message is passed on; the guest's message with the guest's ID is
  answered with 401; a message with the unknown sender 9 is not passed on.
\<close>

lemma dispatch_checks_sender_in_lobby_example:
  "handleConnection_body example_env example_lobby example_owner
       (Frame BinaryMessage [0, 0, 0, 7, 0, 0, 3, 233]) =
     ([], ProcessClientMessage example_owner example_OWNER_EVENT [])
   \<and> ExtractClientIDAndMessageID example_env [0, 0, 0, 7, 0, 0, 3, 233] =
       Inr (7, example_OWNER_EVENT, [])
   \<and> Load (Lobby_Clients example_lobby) 7 = Some example_owner
   \<and> SendPermissions_at example_OWNER_EVENT (Client_Type example_owner)
   \<and> clients_keyed_by_ID example_lobby \<and> Client_ID example_owner = 7
   \<and> ExtractClientIDAndMessageID example_env [0, 0, 0, 8, 0, 0, 3, 233] =
       Inr (8, example_OWNER_EVENT, [])
   \<and> Load (Lobby_Clients example_lobby) 8 = Some example_guest
   \<and> \<not> SendPermissions_at example_OWNER_EVENT (Client_Type example_guest)
   \<and> handleConnection_body example_env example_lobby example_guest
       (Frame BinaryMessage [0, 0, 0, 8, 0, 0, 3, 233]) = ([(Some example_guest, 401)], Continue)
   \<and> ExtractClientIDAndMessageID example_env [0, 0, 0, 9, 0, 0, 3, 233] =
       Inr (9, example_OWNER_EVENT, [])
   \<and> Load (Lobby_Clients example_lobby) 9 = None
   \<and> \<not> is_dispatch (snd (handleConnection_body example_env example_lobby example_guest
       (Frame BinaryMessage [0, 0, 0, 9, 0, 0, 3, 233])))"
proof -
  have env: "ExtractClientIDAndMessageID example_env = example_extract"
    "SendDebugInfoToClient example_env = (\<lambda>recipient code. SendOk)"
    by (simp_all add: example_env_def)
  have run: "handleConnection_body example_env example_lobby example_owner
       (Frame BinaryMessage [0, 0, 0, 7, 0, 0, 3, 233]) =
     ([], ProcessClientMessage example_owner example_OWNER_EVENT [])"
    by (simp add: handleConnection_body_def handleConnection_checks_def env
        example_extract_owner_event example_lobby_Load example_permissions
        TextMessage_def BinaryMessage_def)
  have keyed: "clients_keyed_by_ID example_lobby"
    by (simp add: clients_keyed_by_ID_def example_lobby_def example_owner_def example_guest_def
        NewClient_def)
  note inst = dispatch_checks_sender_in_lobby [where env = example_env and lobby = example_lobby]
  from inst [where C = example_owner and fr = "Frame BinaryMessage [0, 0, 0, 7, 0, 0, 3, 233]"
      and calls = "[]" and cl = example_owner and spec = example_OWNER_EVENT and remainder = "[]"]
    run keyed
  have one: "Client_ID example_owner = 7"
    by (auto simp: env frame_message_def TextMessage_def BinaryMessage_def
        example_extract_owner_event example_lobby_def Load_def example_owner_def NewClient_def)
  from inst [where C = example_guest and m = "[0, 0, 0, 8, 0, 0, 3, 233]" and sender = 8
      and sp = example_OWNER_EVENT and rm = "[]" and c = example_guest]
  have two: "handleConnection_body example_env example_lobby example_guest
       (Frame BinaryMessage [0, 0, 0, 8, 0, 0, 3, 233]) = ([(Some example_guest, 401)], Continue)"
    by (simp add: env example_extract_guest_sender example_lobby_Load example_permissions
        handleConnection_body_binary)
  from inst [where C = example_guest and m = "[0, 0, 0, 9, 0, 0, 3, 233]" and sender = 9
      and sp = example_OWNER_EVENT and rm = "[]"]
  have three: "\<not> is_dispatch (snd (handleConnection_body example_env example_lobby example_guest
       (Frame BinaryMessage [0, 0, 0, 9, 0, 0, 3, 233])))"
    by (simp add: env example_extract_unknown_sender example_lobby_Load)
  from run keyed one two three show ?thesis
    by (simp add: env example_extract_owner_event example_extract_guest_sender
        example_extract_unknown_sender example_lobby_Load example_permissions)
qed

text \<open>
  Claim C1. The claim is that every message accepted for dispatch on the session of a
  client \<open>C\<close> carries the sender ID \<open>C.ID\<close> and that the permission holds for the
  origin type of \<open>C\<close>, a message failing either check being answered with
  \<open>Debug(401)\<close>; the comment in \<open>handleConnection\<close> likewise says that the client
  loaded by the sender ID should be the same as the client of the session. The code does not
  check it: on the session of the guest 8, in the lobby of the owner 7 and the guest 8, a
  binary frame whose header names the sender 7 and an event that only the owner may send is
  passed to \<open>processClientMessage\<close> with the owner as client and with no debug
  notification, although its sender ID is not 8 and a guest may not send the event.
\<close>

theorem handleConnection_dispatches_spoofed_sender:
  "handleConnection_body example_env example_lobby example_guest
       (Frame BinaryMessage [0, 0, 0, 7, 0, 0, 3, 233]) =
     ([], ProcessClientMessage example_owner example_OWNER_EVENT [])
   \<and> ExtractClientIDAndMessageID example_env [0, 0, 0, 7, 0, 0, 3, 233] =
       Inr (7, example_OWNER_EVENT, [])
   \<and> Client_ID example_guest = 8
   \<and> (7 :: ClientID) \<noteq> Client_ID example_guest
   \<and> \<not> SendPermissions_at example_OWNER_EVENT (Client_Type example_guest)"
  by (simp add: handleConnection_body_def handleConnection_checks_def example_env_def
      example_extract_owner_event example_lobby_Load example_permissions
      TextMessage_def BinaryMessage_def)
    (simp add: example_guest_def NewClient_def)

text \<open>The theorem on the session of the guest 8, for a message with the sender 9.\<close>

theorem unknown_sender_debug_recipient_is_nil_witness:
  "ExtractClientIDAndMessageID example_env [0, 0, 0, 9, 0, 0, 3, 233] =
       Inr (9, example_OWNER_EVENT, [])
   \<and> Load (Lobby_Clients example_lobby) 9 = None
   \<and> handleConnection_body example_env example_lobby example_guest
        (Frame BinaryMessage [0, 0, 0, 9, 0, 0, 3, 233]) = ([(None, 401)], Continue)
   \<and> (Some example_guest, 401) \<notin> set (fst (handleConnection_body example_env example_lobby
        example_guest (Frame BinaryMessage [0, 0, 0, 9, 0, 0, 3, 233])))"
proof -
  have h1: "ExtractClientIDAndMessageID example_env [0, 0, 0, 9, 0, 0, 3, 233] =
       Inr (9, example_OWNER_EVENT, [])"
    by (simp add: example_env_def example_extract_unknown_sender)
  have h2: "Load (Lobby_Clients example_lobby) 9 = None"
    by (rule example_lobby_Load)
  from unknown_sender_debug_recipient_is_nil [OF h1 h2, of example_guest] h1 h2 show ?thesis
    by (simp add: example_env_def)
qed

section \<open>Properties of the removal of clients\<close>

lemma Load_Delete_same: "Load (Delete m k) k = None"
  by (simp add: Load_def Delete_def delete_conv')

lemma RemoveClient_twice:
  assumes "clients_keyed_by_ID lobby" and "RemoveClient leftMsg lobby client = Inr (lobby', effects)"
  shows "Load (Lobby_Clients lobby') (Client_ID client) = None"
proof -
  from assms(2) obtain c where c: "Load (Lobby_Clients lobby) (Client_ID client) = Some c"
    and l: "lobby' = lobby\<lparr>Lobby_Clients := Delete (Lobby_Clients lobby) (Client_ID c)\<rparr>"
    by (auto simp: RemoveClient_def Let_def split: option.splits)
  from clients_keyed_by_ID_Load [OF assms(1) c] have "Client_ID c = Client_ID client" .
  with l show ?thesis
    by (simp add: Load_Delete_same)
qed

lemma onDisconnect_clients:
  assumes "onDisconnect leftMsg closingMsg lobby client = Inr (lobby', effects)"
  shows "\<exists>lobby1 effects1. RemoveClient leftMsg lobby client = Inr (lobby1, effects1) \<and>
           Lobby_Clients lobby' = Lobby_Clients lobby1"
  using assms
  by (auto simp: onDisconnect_def handleOwnerDisconnect_def handleGuestDisconnect_def close_def
      split: if_splits sum.splits prod.splits)

lemma onDisconnect_absent:
  assumes "Load (Lobby_Clients lobby) (Client_ID client) = None"
  shows "onDisconnect leftMsg closingMsg lobby client = Inl NilPointerDereference"
  using assms
  by (simp add: onDisconnect_def handleOwnerDisconnect_def handleGuestDisconnect_def
      RemoveClient_def)

text \<open>
  Claim C10. For every call of \<open>RemoveClient\<close> with a client whose ID is absent from the
  client map of the lobby, the function does not return: the not-found branch dereferences the
  \<open>nil\<close> result of the failed load and panics. In particular a second removal of the same
  client hits this branch, for \<open>RemoveClient\<close> itself and for \<open>onDisconnect\<close>, which
  the close handler and the exit of the read loop both call, in a lobby whose clients are
  stored under their own IDs.
\<close>

theorem RemoveClient_absent_panics:
  "(Load (Lobby_Clients lobby) (Client_ID client) = None \<longrightarrow>
      RemoveClient leftMsg lobby client = Inl NilPointerDereference)
   \<and> (clients_keyed_by_ID lobby \<and> RemoveClient leftMsg lobby client = Inr (lobby1, effects1) \<longrightarrow>
      RemoveClient leftMsg lobby1 client = Inl NilPointerDereference)
   \<and> (clients_keyed_by_ID lobby \<and> onDisconnect leftMsg closingMsg lobby client = Inr (lobby2, effects2) \<longrightarrow>
      onDisconnect leftMsg closingMsg lobby2 client = Inl NilPointerDereference)"
proof (intro conjI impI)
  assume "Load (Lobby_Clients lobby) (Client_ID client) = None"
  then show "RemoveClient leftMsg lobby client = Inl NilPointerDereference"
    by (simp add: RemoveClient_def)
next
  assume "clients_keyed_by_ID lobby \<and> RemoveClient leftMsg lobby client = Inr (lobby1, effects1)"
  then have "Load (Lobby_Clients lobby1) (Client_ID client) = None"
    by (auto dest: RemoveClient_twice)
  then show "RemoveClient leftMsg lobby1 client = Inl NilPointerDereference"
    by (simp add: RemoveClient_def)
next
  assume a: "clients_keyed_by_ID lobby \<and> onDisconnect leftMsg closingMsg lobby client = Inr (lobby2, effects2)"
  then obtain l1 e1 where "RemoveClient leftMsg lobby client = Inr (l1, e1)"
    and "Lobby_Clients lobby2 = Lobby_Clients l1"
    using onDisconnect_clients by blast
  with a have "Load (Lobby_Clients lobby2) (Client_ID client) = None"
    by (auto dest: RemoveClient_twice)
  then show "onDisconnect leftMsg closingMsg lobby2 client = Inl NilPointerDereference"
    by (rule onDisconnect_absent)
qed

text \<open>
  The theorem in the lobby of the owner 7 and the guest 8: the removal of a client 9 that
  never joined, the removal of the guest twice, and the disconnect of the owner twice.
\<close>

theorem RemoveClient_absent_panics_witness:
  "Load (Lobby_Clients example_lobby)
      (Client_ID (NewClient 9 ''nobody'' ORIGIN_TYPE_GUEST 102 MESSAGE_ENCODING_BASE16)) = None
   \<and> RemoveClient [] example_lobby
        (NewClient 9 ''nobody'' ORIGIN_TYPE_GUEST 102 MESSAGE_ENCODING_BASE16) =
       Inl NilPointerDereference
   \<and> clients_keyed_by_ID example_lobby
   \<and> RemoveClient [] example_lobby example_guest =
       Inr (example_lobby\<lparr>Lobby_Clients := [(7, example_owner)]\<rparr>,
            [ConnClose 101,
             BroadcastMessage (example_lobby\<lparr>Lobby_Clients := [(7, example_owner)]\<rparr>) SERVER_ID
               [8, 0, 0, 0, 103, 117, 101, 115, 116]])
   \<and> RemoveClient [] (example_lobby\<lparr>Lobby_Clients := [(7, example_owner)]\<rparr>) example_guest =
       Inl NilPointerDereference
   \<and> onDisconnect [] [] example_lobby example_owner =
       Inr (example_lobby\<lparr>Lobby_Clients := [(8, example_guest)], Lobby_Closing := True\<rparr>,
            [ConnClose 100,
             BroadcastMessage (example_lobby\<lparr>Lobby_Clients := [(8, example_guest)]\<rparr>) SERVER_ID
               [7, 0, 0, 0, 111, 119, 110, 101, 114],
             BroadcastMessage (example_lobby\<lparr>Lobby_Clients := [(8, example_guest)]\<rparr>) SERVER_ID [],
             CloseQueueSend 2])
   \<and> onDisconnect [] []
        (example_lobby\<lparr>Lobby_Clients := [(8, example_guest)], Lobby_Closing := True\<rparr>)
        example_owner = Inl NilPointerDereference"
proof -
  have absent: "Load (Lobby_Clients example_lobby)
      (Client_ID (NewClient 9 ''nobody'' ORIGIN_TYPE_GUEST 102 MESSAGE_ENCODING_BASE16)) = None"
    by (simp add: example_lobby_def Load_def NewClient_def)
  have keyed: "clients_keyed_by_ID example_lobby"
    by (simp add: clients_keyed_by_ID_def example_lobby_def example_owner_def example_guest_def
        NewClient_def)
  have first: "RemoveClient [] example_lobby example_guest =
       Inr (example_lobby\<lparr>Lobby_Clients := [(7, example_owner)]\<rparr>,
            [ConnClose 101,
             BroadcastMessage (example_lobby\<lparr>Lobby_Clients := [(7, example_owner)]\<rparr>) SERVER_ID
               [8, 0, 0, 0, 103, 117, 101, 115, 116]])"
    by (simp add: RemoveClient_def example_lobby_def Load_def Delete_def example_guest_def
        example_owner_def NewClient_def LittleEndian_PutUint32_def Let_def)
  have owner: "onDisconnect [] [] example_lobby example_owner =
       Inr (example_lobby\<lparr>Lobby_Clients := [(8, example_guest)], Lobby_Closing := True\<rparr>,
            [ConnClose 100,
             BroadcastMessage (example_lobby\<lparr>Lobby_Clients := [(8, example_guest)]\<rparr>) SERVER_ID
               [7, 0, 0, 0, 111, 119, 110, 101, 114],
             BroadcastMessage (example_lobby\<lparr>Lobby_Clients := [(8, example_guest)]\<rparr>) SERVER_ID [],
             CloseQueueSend 2])"
    by (simp add: onDisconnect_def handleOwnerDisconnect_def close_def RemoveClient_def
        example_lobby_def Load_def Delete_def example_guest_def
        example_owner_def NewClient_def LittleEndian_PutUint32_def Let_def)
  note inst = RemoveClient_absent_panics [where lobby = example_lobby and leftMsg = "[]"
      and closingMsg = "[]"]
  from inst [where client = "NewClient 9 ''nobody'' ORIGIN_TYPE_GUEST 102 MESSAGE_ENCODING_BASE16"]
    absent
  have one: "RemoveClient [] example_lobby
        (NewClient 9 ''nobody'' ORIGIN_TYPE_GUEST 102 MESSAGE_ENCODING_BASE16) =
       Inl NilPointerDereference"
    by simp
  from inst [where client = example_guest, THEN conjunct2, THEN conjunct1] keyed first
  have two: "RemoveClient [] (example_lobby\<lparr>Lobby_Clients := [(7, example_owner)]\<rparr>)
       example_guest = Inl NilPointerDereference"
    by simp
  from inst [where client = example_owner, THEN conjunct2, THEN conjunct2] keyed owner
  have three: "onDisconnect [] []
        (example_lobby\<lparr>Lobby_Clients := [(8, example_guest)], Lobby_Closing := True\<rparr>)
        example_owner = Inl NilPointerDereference"
    by simp
  from absent one keyed first two owner three show ?thesis
    by simp
qed

section \<open>Properties of the disclosed client state\<close>

lemma four_prefix:
  "4 \<le> length xs \<Longrightarrow> \<exists>x0 x1 x2 x3 rest. xs = x0 # x1 # x2 # x3 # rest"
  by (auto simp: numeral_eq_Suc Suc_le_length_iff)

lemma take_drop_four:
  assumes "low + 4 \<le> high" and "high \<le> length a"
  shows "\<exists>rest. take (high - low) (drop low a) =
           a ! low # a ! (low + 1) # a ! (low + 2) # a ! (low + 3) # rest"
proof -
  let ?xs = "take (high - low) (drop low a)"
  from assms have len: "4 \<le> length ?xs"
    by simp
  from four_prefix [OF len] obtain x0 x1 x2 x3 rest where xs: "?xs = x0 # x1 # x2 # x3 # rest"
    by blast
  have nth: "\<And>i. i < 4 \<Longrightarrow> ?xs ! i = a ! (low + i)"
    using assms by simp
  from nth [of 0] nth [of 1] nth [of 2] nth [of 3] xs
  have "x0 = a ! low" "x1 = a ! (low + 1)" "x2 = a ! (low + 2)" "x3 = a ! (low + 3)"
    by (simp_all add: numeral_eq_Suc)
  with xs show ?thesis
    by simp
qed

lemma UpdateAny_other_message:
  "messageID \<noteq> Spec_ID PME \<Longrightarrow>
     UpdateAny PME unixNano dcs messageID remainder = Inr (dcs\<lparr>MSOfLastMessage := nowInMS unixNano\<rparr>)"
  by (simp add: UpdateAny_def)

lemma UpdateAny_move_in_range:
  assumes "locationID_in_range PME remainder"
  shows "UpdateAny PME unixNano dcs (Spec_ID PME) remainder =
     Inr (dcs\<lparr>LastKnownPosition :=
               (let a = slice_array remainder; off = unat (Offset (Structure PME ! 1))
                in u32_le (a ! off) (a ! (off + 1)) (a ! (off + 2)) (a ! (off + 3))),
             MSOfLastMessage := nowInMS unixNano\<rparr>)"
proof -
  let ?e = "Structure PME ! 1"
  let ?low = "unat (Offset ?e)"
  let ?high = "unat (Offset ?e + ByteSize ?e)"
  from assms have idx: "index_expr (Structure PME) 1 = Inr ?e"
    and lo: "?low + 4 \<le> ?high" and hi: "?high \<le> length (slice_array remainder)"
    by (simp_all add: locationID_in_range_def index_expr_def Let_def slice_cap_def)
  from lo hi have sl: "slice_expr remainder ?low ?high =
      Inr \<lparr>slice_array = drop ?low (slice_array remainder), slice_len = ?high - ?low\<rparr>"
    by (simp add: slice_expr_def slice_cap_def)
  from take_drop_four [OF lo hi] obtain rest where
    "take (?high - ?low) (drop ?low (slice_array remainder)) =
       slice_array remainder ! ?low # slice_array remainder ! (?low + 1) #
       slice_array remainder ! (?low + 2) # slice_array remainder ! (?low + 3) # rest"
    by blast
  then have rd: "LittleEndian_Uint32
      \<lparr>slice_array = drop ?low (slice_array remainder), slice_len = ?high - ?low\<rparr> =
      Inr (u32_le (slice_array remainder ! ?low) (slice_array remainder ! (?low + 1))
            (slice_array remainder ! (?low + 2)) (slice_array remainder ! (?low + 3)))"
    by (simp add: LittleEndian_Uint32_def slice_bytes_def)
  show ?thesis
    unfolding UpdateAny_def idx sum.case Let_def sl rd by simp
qed

text \<open>
  Outside the range the \<open>PLAYER_MOVE_EVENT\<close> branch panics, whatever the event
  specification is.
\<close>

lemma UpdateAny_move_out_of_range:
  assumes "\<not> locationID_in_range PME remainder"
  shows "\<exists>p. UpdateAny PME unixNano dcs (Spec_ID PME) remainder = Inl p"
proof (cases "1 < length (Structure PME)")
  case False
  then show ?thesis
    by (simp add: UpdateAny_def index_expr_def)
next
  case True
  let ?e = "Structure PME ! 1"
  let ?low = "unat (Offset ?e)"
  let ?high = "unat (Offset ?e + ByteSize ?e)"
  from True have idx: "index_expr (Structure PME) 1 = Inr ?e"
    by (simp add: index_expr_def)
  show ?thesis
  proof (cases "?low \<le> ?high \<and> ?high \<le> slice_cap remainder")
    case False
    then have "slice_expr remainder ?low ?high = Inl SliceBoundsOutOfRange"
      by (auto simp add: slice_expr_def)
    then show ?thesis
      unfolding UpdateAny_def idx sum.case Let_def by simp
  next
    case inb: True
    then have sl: "slice_expr remainder ?low ?high =
      Inr \<lparr>slice_array = drop ?low (slice_array remainder), slice_len = ?high - ?low\<rparr>"
      by (simp add: slice_expr_def)
    from assms True inb have short: "?high - ?low < 4"
      by (auto simp add: locationID_in_range_def Let_def)
    then have "length (slice_bytes
       \<lparr>slice_array = drop ?low (slice_array remainder), slice_len = ?high - ?low\<rparr>) < 4"
      by (simp add: slice_bytes_def)
    then have "LittleEndian_Uint32
       \<lparr>slice_array = drop ?low (slice_array remainder), slice_len = ?high - ?low\<rparr> =
       Inl IndexOutOfRange"
      by (auto simp add: LittleEndian_Uint32_def split: list.splits)
    then show ?thesis
      unfolding UpdateAny_def idx sum.case Let_def sl by simp
  qed
qed

lemma UpdateAny_move_out_of_range_panics:
  assumes "\<not> locationID_in_range PME remainder"
  shows "UpdateAny PME unixNano dcs (Spec_ID PME) remainder = Inl IndexOutOfRange \<or>
         UpdateAny PME unixNano dcs (Spec_ID PME) remainder = Inl SliceBoundsOutOfRange"
proof (cases "1 < length (Structure PME)")
  case False
  then show ?thesis
    by (simp add: UpdateAny_def index_expr_def)
next
  case True
  let ?e = "Structure PME ! 1"
  let ?low = "unat (Offset ?e)"
  let ?high = "unat (Offset ?e + ByteSize ?e)"
  from True have idx: "index_expr (Structure PME) 1 = Inr ?e"
    by (simp add: index_expr_def)
  show ?thesis
  proof (cases "?low \<le> ?high \<and> ?high \<le> slice_cap remainder")
    case False
    then have "slice_expr remainder ?low ?high = Inl SliceBoundsOutOfRange"
      by (auto simp add: slice_expr_def)
    then show ?thesis
      unfolding UpdateAny_def idx sum.case Let_def by simp
  next
    case inb: True
    then have sl: "slice_expr remainder ?low ?high =
      Inr \<lparr>slice_array = drop ?low (slice_array remainder), slice_len = ?high - ?low\<rparr>"
      by (simp add: slice_expr_def)
    from assms True inb have short: "?high - ?low < 4"
      by (auto simp add: locationID_in_range_def Let_def)
    then have "length (slice_bytes
       \<lparr>slice_array = drop ?low (slice_array remainder), slice_len = ?high - ?low\<rparr>) < 4"
      by (simp add: slice_bytes_def)
    then have "LittleEndian_Uint32
       \<lparr>slice_array = drop ?low (slice_array remainder), slice_len = ?high - ?low\<rparr> =
       Inl IndexOutOfRange"
      by (auto simp add: LittleEndian_Uint32_def split: list.splits)
    then show ?thesis
      unfolding UpdateAny_def idx sum.case Let_def sl by simp
  qed
qed

text \<open>
  Claim C8, as amended. \<open>UpdateAny\<close> does not panic exactly when the message ID is not
  that of \<open>PLAYER_MOVE_EVENT\<close>, or \<open>PLAYER_MOVE_EVENT\<close> has a second structure element
  whose byte range, from its offset to its offset plus its size in \<open>uint32\<close>, is at least
  four bytes long and ends within the capacity of the remainder (a slice expression is
  bounded by the capacity of the slice, not by its length, so the range may reach past the
  payload). In that case it returns; it changes
  \<open>LastKnownPosition\<close> only when the message ID is that of \<open>PLAYER_MOVE_EVENT\<close>, to
  the little-endian \<open>uint32\<close> at the offset of that element in the array of the remainder;
  it stamps \<open>MSOfLastMessage\<close> with the milliseconds of the clock reading whatever the
  message ID; and the resulting state differs from the given one in nothing else. Otherwise,
  for the ID of \<open>PLAYER_MOVE_EVENT\<close> and no such element or range, it panics with an
  index or slice-bounds error before the stamp.
\<close>

theorem UpdateAny_effect:
  "((messageID = Spec_ID PLAYER_MOVE_EVENT \<longrightarrow> locationID_in_range PLAYER_MOVE_EVENT remainder) \<longrightarrow>
      UpdateAny PLAYER_MOVE_EVENT unixNano dcs messageID remainder =
        Inr (dcs\<lparr>LastKnownPosition :=
               (if messageID = Spec_ID PLAYER_MOVE_EVENT
                then (let a = slice_array remainder;
                          off = unat (Offset (Structure PLAYER_MOVE_EVENT ! 1))
                      in u32_le (a ! off) (a ! (off + 1)) (a ! (off + 2)) (a ! (off + 3)))
                else LastKnownPosition dcs),
             MSOfLastMessage := nowInMS unixNano\<rparr>))
   \<and> (messageID = Spec_ID PLAYER_MOVE_EVENT \<and>
       \<not> locationID_in_range PLAYER_MOVE_EVENT remainder \<longrightarrow>
      UpdateAny PLAYER_MOVE_EVENT unixNano dcs messageID remainder = Inl IndexOutOfRange \<or>
      UpdateAny PLAYER_MOVE_EVENT unixNano dcs messageID remainder = Inl SliceBoundsOutOfRange)"
proof (intro conjI impI)
  assume a: "messageID = Spec_ID PLAYER_MOVE_EVENT \<longrightarrow>
    locationID_in_range PLAYER_MOVE_EVENT remainder"
  show "UpdateAny PLAYER_MOVE_EVENT unixNano dcs messageID remainder =
        Inr (dcs\<lparr>LastKnownPosition :=
               (if messageID = Spec_ID PLAYER_MOVE_EVENT
                then (let a = slice_array remainder;
                          off = unat (Offset (Structure PLAYER_MOVE_EVENT ! 1))
                      in u32_le (a ! off) (a ! (off + 1)) (a ! (off + 2)) (a ! (off + 3)))
                else LastKnownPosition dcs),
             MSOfLastMessage := nowInMS unixNano\<rparr>)"
  proof (cases "messageID = Spec_ID PLAYER_MOVE_EVENT")
    case True
    with a UpdateAny_move_in_range [of PLAYER_MOVE_EVENT remainder unixNano dcs]
    show ?thesis
      by simp
  next
    case False
    with UpdateAny_other_message [of messageID PLAYER_MOVE_EVENT unixNano dcs remainder]
    show ?thesis
      by simp
  qed
next
  assume "messageID = Spec_ID PLAYER_MOVE_EVENT \<and>
       \<not> locationID_in_range PLAYER_MOVE_EVENT remainder"
  with UpdateAny_move_out_of_range_panics [of PLAYER_MOVE_EVENT remainder unixNano dcs]
  show "UpdateAny PLAYER_MOVE_EVENT unixNano dcs messageID remainder = Inl IndexOutOfRange \<or>
      UpdateAny PLAYER_MOVE_EVENT unixNano dcs messageID remainder = Inl SliceBoundsOutOfRange"
    by simp
qed

text \<open>
  The theorem at a remainder of 16 bytes, whose bytes 12 to 15 hold 261; at another message
  ID with an empty remainder; at a remainder of length 8 and capacity 16, where the read
  reaches past the payload and returns the 9 that the array holds there; and at a remainder
  of length and capacity 8, where the slice expression panics.
\<close>

theorem UpdateAny_effect_witness:
  "locationID_in_range example_PLAYER_MOVE_EVENT
     (slice_of [0, 0, 0, 0, 0, 0, 0, 0, 1, 0, 0, 0, 5, 1, 0, 0])
   \<and> UpdateAny example_PLAYER_MOVE_EVENT 1700000000123456789
        \<lparr>LastKnownPosition = 3, MSOfLastMessage = 9\<rparr> 2005
        (slice_of [0, 0, 0, 0, 0, 0, 0, 0, 1, 0, 0, 0, 5, 1, 0, 0]) =
      Inr \<lparr>LastKnownPosition = 261, MSOfLastMessage = 1700000000123\<rparr>
   \<and> (1001 :: MessageID) \<noteq> Spec_ID example_PLAYER_MOVE_EVENT
   \<and> UpdateAny example_PLAYER_MOVE_EVENT 1700000000123456789
        \<lparr>LastKnownPosition = 3, MSOfLastMessage = 9\<rparr> 1001 (slice_of []) =
      Inr \<lparr>LastKnownPosition = 3, MSOfLastMessage = 1700000000123\<rparr>
   \<and> locationID_in_range example_PLAYER_MOVE_EVENT
        \<lparr>slice_array = [1, 0, 0, 0, 5, 0, 0, 0, 0, 0, 0, 0, 9, 0, 0, 0], slice_len = 8\<rparr>
   \<and> UpdateAny example_PLAYER_MOVE_EVENT 1700000000123456789
        \<lparr>LastKnownPosition = 3, MSOfLastMessage = 9\<rparr> 2005
        \<lparr>slice_array = [1, 0, 0, 0, 5, 0, 0, 0, 0, 0, 0, 0, 9, 0, 0, 0], slice_len = 8\<rparr> =
      Inr \<lparr>LastKnownPosition = 9, MSOfLastMessage = 1700000000123\<rparr>
   \<and> (2005 :: MessageID) = Spec_ID example_PLAYER_MOVE_EVENT
   \<and> \<not> locationID_in_range example_PLAYER_MOVE_EVENT (slice_of [1, 0, 0, 0, 5, 0, 0, 0])
   \<and> UpdateAny example_PLAYER_MOVE_EVENT 1700000000123456789
        \<lparr>LastKnownPosition = 3, MSOfLastMessage = 9\<rparr> 2005
        (slice_of [1, 0, 0, 0, 5, 0, 0, 0]) = Inl SliceBoundsOutOfRange"
proof -
  note inst = UpdateAny_effect [where PLAYER_MOVE_EVENT = example_PLAYER_MOVE_EVENT
      and unixNano = 1700000000123456789
      and dcs = "\<lparr>LastKnownPosition = 3, MSOfLastMessage = 9\<rparr>"]
  have r: "locationID_in_range example_PLAYER_MOVE_EVENT
     (slice_of [0, 0, 0, 0, 0, 0, 0, 0, 1, 0, 0, 0, 5, 1, 0, 0])"
    by (simp add: locationID_in_range_def example_PLAYER_MOVE_EVENT_def slice_of_def
        slice_cap_def)
  have r2: "locationID_in_range example_PLAYER_MOVE_EVENT
        \<lparr>slice_array = [1, 0, 0, 0, 5, 0, 0, 0, 0, 0, 0, 0, 9, 0, 0, 0], slice_len = 8\<rparr>"
    by (simp add: locationID_in_range_def example_PLAYER_MOVE_EVENT_def slice_cap_def)
  have nr: "\<not> locationID_in_range example_PLAYER_MOVE_EVENT (slice_of [1, 0, 0, 0, 5, 0, 0, 0])"
    by (simp add: locationID_in_range_def example_PLAYER_MOVE_EVENT_def slice_of_def
        slice_cap_def)
  have ne: "(1001 :: MessageID) \<noteq> Spec_ID example_PLAYER_MOVE_EVENT"
    and eq: "(2005 :: MessageID) = Spec_ID example_PLAYER_MOVE_EVENT"
    by (simp_all add: example_PLAYER_MOVE_EVENT_def)
  from inst [where messageID = 2005
      and remainder = "slice_of [0, 0, 0, 0, 0, 0, 0, 0, 1, 0, 0, 0, 5, 1, 0, 0]", THEN conjunct1] r
  have one: "UpdateAny example_PLAYER_MOVE_EVENT 1700000000123456789
        \<lparr>LastKnownPosition = 3, MSOfLastMessage = 9\<rparr> 2005
        (slice_of [0, 0, 0, 0, 0, 0, 0, 0, 1, 0, 0, 0, 5, 1, 0, 0]) =
      Inr \<lparr>LastKnownPosition = 261, MSOfLastMessage = 1700000000123\<rparr>"
    by (simp add: example_PLAYER_MOVE_EVENT_def slice_of_def u32_le_def nowInMS_def)
  from inst [where messageID = 1001 and remainder = "slice_of []", THEN conjunct1] ne
  have two: "UpdateAny example_PLAYER_MOVE_EVENT 1700000000123456789
        \<lparr>LastKnownPosition = 3, MSOfLastMessage = 9\<rparr> 1001 (slice_of []) =
      Inr \<lparr>LastKnownPosition = 3, MSOfLastMessage = 1700000000123\<rparr>"
    by (simp add: nowInMS_def)
  from inst [where messageID = 2005
      and remainder = "\<lparr>slice_array = [1, 0, 0, 0, 5, 0, 0, 0, 0, 0, 0, 0, 9, 0, 0, 0], slice_len = 8\<rparr>",
      THEN conjunct1] r2
  have three: "UpdateAny example_PLAYER_MOVE_EVENT 1700000000123456789
        \<lparr>LastKnownPosition = 3, MSOfLastMessage = 9\<rparr> 2005
        \<lparr>slice_array = [1, 0, 0, 0, 5, 0, 0, 0, 0, 0, 0, 0, 9, 0, 0, 0], slice_len = 8\<rparr> =
      Inr \<lparr>LastKnownPosition = 9, MSOfLastMessage = 1700000000123\<rparr>"
    by (simp add: example_PLAYER_MOVE_EVENT_def u32_le_def nowInMS_def)
  from inst [where messageID = 2005 and remainder = "slice_of [1, 0, 0, 0, 5, 0, 0, 0]",
      THEN conjunct2] eq nr
  have panics: "UpdateAny example_PLAYER_MOVE_EVENT 1700000000123456789
        \<lparr>LastKnownPosition = 3, MSOfLastMessage = 9\<rparr> 2005
        (slice_of [1, 0, 0, 0, 5, 0, 0, 0]) = Inl IndexOutOfRange \<or>
      UpdateAny example_PLAYER_MOVE_EVENT 1700000000123456789
        \<lparr>LastKnownPosition = 3, MSOfLastMessage = 9\<rparr> 2005
        (slice_of [1, 0, 0, 0, 5, 0, 0, 0]) = Inl SliceBoundsOutOfRange"
    by blast
  have "UpdateAny example_PLAYER_MOVE_EVENT 1700000000123456789
        \<lparr>LastKnownPosition = 3, MSOfLastMessage = 9\<rparr> 2005
        (slice_of [1, 0, 0, 0, 5, 0, 0, 0]) \<noteq> Inl IndexOutOfRange"
    by (simp add: UpdateAny_def example_PLAYER_MOVE_EVENT_def index_expr_def slice_expr_def
        slice_of_def slice_cap_def)
  with panics have four: "UpdateAny example_PLAYER_MOVE_EVENT 1700000000123456789
        \<lparr>LastKnownPosition = 3, MSOfLastMessage = 9\<rparr> 2005
        (slice_of [1, 0, 0, 0, 5, 0, 0, 0]) = Inl SliceBoundsOutOfRange"
    by blast
  from r one ne two r2 three eq nr four show ?thesis
    by blast
qed

text \<open>
  The claim as stated (for every message ID and payload the timestamp is stamped) fails: with
  the ID of \<open>PLAYER_MOVE_EVENT\<close> and an empty remainder, or a remainder of the eight bytes
  of the two elements, each of a capacity equal to its length, the slice expression panics
  and nothing is stamped.
\<close>

theorem UpdateAny_short_payload_counterexample:
  "UpdateAny example_PLAYER_MOVE_EVENT 1700000000123456789
      \<lparr>LastKnownPosition = 3, MSOfLastMessage = 9\<rparr>
      (Spec_ID example_PLAYER_MOVE_EVENT) (slice_of []) = Inl SliceBoundsOutOfRange
   \<and> UpdateAny example_PLAYER_MOVE_EVENT 1700000000123456789
      \<lparr>LastKnownPosition = 3, MSOfLastMessage = 9\<rparr>
      (Spec_ID example_PLAYER_MOVE_EVENT) (slice_of [1, 0, 0, 0, 5, 0, 0, 0]) =
     Inl SliceBoundsOutOfRange"
  by (simp add: UpdateAny_def example_PLAYER_MOVE_EVENT_def index_expr_def slice_expr_def
      slice_of_def slice_cap_def)

text \<open>
  The earlier version of \<open>UpdateAny\<close> in src/internal/client.go also leaves the position as
  it is for every other message ID; it has no timestamp to stamp.
\<close>

lemma UpdateAny_client_go_other_message:
  "messageID \<noteq> Spec_ID PLAYER_MOVE_EVENT \<Longrightarrow>
     UpdateAny_client_go PLAYER_MOVE_EVENT lastKnownPosition messageID remainder =
       Inr lastKnownPosition"
  by (simp add: UpdateAny_client_go_def)

lemma example_PLAYER_MOVE_EVENT_Structure:
  "ComputeStructure ''PlayerMove''
     [NewElementDescriptor ''Player ID'' ''playerID'' Reflect_Uint32,
      NewElementDescriptor ''Colony Location ID'' ''colonyLocationID'' Reflect_Uint32] =
   Inr (ExpectedMinSize example_PLAYER_MOVE_EVENT, Structure example_PLAYER_MOVE_EVENT)"
  by (simp add: ComputeStructure_def NewElementDescriptor_def MESSAGE_HEADER_SIZE_def
      example_PLAYER_MOVE_EVENT_def)

end
